theory Spec2Isabelle
  imports Complex_Main "HOL-Library.AList"
begin

section \<open>TfRLTrainer: the TensorFlow binding of the RLlib trainer\<close>

text \<open>
  The development embeds \<^verbatim>\<open>rllib/core/rl_trainer/tf/tf_rl_trainer.py\<close>. The class
  \<^verbatim>\<open>TfRLTrainer\<close> is glue between the base class \<^verbatim>\<open>RLTrainer\<close> and the
  numerical framework. Everything the file calls but does not define (the framework's
  tensor conversion, tape gradient, optimizer step and numpy reductions; the hooks and
  the module bookkeeping of the base class) is a field of the record \<open>env\<close>, so every
  definition below is the body of the method of the same name with those calls left
  as parameters.
\<close>

subsection \<open>Data model\<close>

type_synonym module_id = string

text \<open>A \<^verbatim>\<open>ParamRef\<close> is the hashable reference of a variable (\<^verbatim>\<open>param.ref()\<close>).\<close>

type_synonym param_ref = nat

text \<open>Optimizers are objects; the dictionary \<^verbatim>\<open>_optim_to_param\<close> is keyed by their identity.\<close>

type_synonym optim_id = nat

text \<open>A key of a \<^verbatim>\<open>NestedDict\<close> is the path to a leaf.\<close>

type_synonym path = "string list"

datatype error = ValueError | KeyError | TypeError | AttributeError

datatype dtype = Float32 | Float64 | Int32 | Int64

text \<open>
  What \<^verbatim>\<open>compute_loss\<close> may hand back (\<^verbatim>\<open>Union[TensorType, Mapping[str, Any]]\<close>):
  an instance of \<^verbatim>\<open>tf.Tensor\<close>, a mapping from names to tensors, or any other object.
\<close>

datatype 'v py_loss = TfTensor 'v | LossMapping "(string \<times> 'v) list" | OtherObject 'v

text \<open>
  An RL module, as far as this file reads it: its \<^verbatim>\<open>trainable_variables\<close> and the
  variables whose values \<^verbatim>\<open>get_weights()\<close> returns.
\<close>

record rl_module =
  trainable_variables :: "param_ref list"
  weight_variables :: "param_ref list"

text \<open>
  A \<^verbatim>\<open>SampleBatch\<close> is a dictionary from column names to arrays and a
  \<^verbatim>\<open>MultiAgentBatch\<close> holds one per policy in \<^verbatim>\<open>policy_batches\<close>.
\<close>

type_synonym 'v sample_batch = "(string \<times> 'v) list"

record 'v multi_agent_batch =
  policy_batches :: "(module_id \<times> 'v sample_batch) list"
  env_steps :: nat

text \<open>
  A \<^verbatim>\<open>NestedDict\<close> is seen through its leaves: \<^verbatim>\<open>items()\<close> yields each leaf with
  its path, and \<^verbatim>\<open>d[path] = v\<close> stores at a path.
\<close>

type_synonym 'v nested_dict = "(path \<times> 'v) list"

text \<open>The state that the base class \<^verbatim>\<open>RLTrainer\<close> keeps, with the framework's
  variables and optimizer objects as explicit stores.\<close>

record ('v, 'o) rl_trainer =
  module :: "(module_id \<times> rl_module) list"
  params :: "param_ref list"
  optim_to_param :: "(optim_id \<times> param_ref list) list"
  optimizer_config :: "(string \<times> real) list"
  distributed :: bool
  in_test :: bool
  variables :: "param_ref \<Rightarrow> 'v"
  optimizers :: "optim_id \<Rightarrow> 'o"

text \<open>
  The Python-level structure that \<^verbatim>\<open>_do_update_fn\<close> reads from \<^verbatim>\<open>self\<close>:
  the module registry, the parameter dictionary and the optimizer dictionary.
\<close>

record py_structure =
  s_module :: "(module_id \<times> rl_module) list"
  s_params :: "param_ref list"
  s_optim_to_param :: "(optim_id \<times> param_ref list) list"

text \<open>
  \<^verbatim>\<open>self._update_fn\<close> is either the bound method itself or a \<^verbatim>\<open>tf.function\<close>
  wrapping it. A \<^verbatim>\<open>tf.function\<close> traces the Python body when it is first called and
  keeps the resulting graph: the structure read from \<^verbatim>\<open>self\<close> during that trace is
  frozen in the graph, while variables are captured by reference.
\<close>

datatype update_fn = Eager | Compiled "py_structure option"

datatype strategy = MultiWorkerMirroredStrategy

text \<open>The calls into the framework and into the base class, in the order they happen.\<close>

datatype event =
    ConvertToTensor path
  | TapeEnter | TapeExit
  | ForwardTrain | ComputeLoss
  | TapeGradient | OnAfterComputeGradients
  | OptimizerApply optim_id
  | StrategyCreate | ScopeEnter | ScopeExit
  | StrategyRunBegin | StrategyRunEnd
  | MakeModule
  | SuperAddModule module_id | SuperRemoveModule module_id

text \<open>What a gradient tape has recorded: each operation with its inputs and output.\<close>

datatype 'v recorded =
    RecForwardTrain "'v nested_dict" 'v
  | RecComputeLoss 'v "'v nested_dict" "'v py_loss"

type_synonym 'v tape = "'v recorded list"

record ('v, 'o) tf_rl_trainer =
  base :: "('v, 'o) rl_trainer"
  enable_tf_function :: bool
  update_fn :: update_fn
  strategy :: "strategy option"
  trace :: "event list"

text \<open>The entries of the mapping that \<^verbatim>\<open>compile_results\<close> returns.\<close>

datatype 'v result_value =
    LossValue "'v py_loss"
  | Scalar 'v
  | PerModule "(module_id \<times> 'v) list"

type_synonym 'v gradients = "(param_ref \<times> 'v) list"

record 'v update_outs =
  out_loss :: "'v py_loss"
  out_fwd_out :: 'v
  out_post_processed_gradients :: "'v gradients"

text \<open>
  The collaborators. \<open>'v\<close> is the type of Python values (arrays, tensors, forward
  outputs), \<open>'o\<close> the state of an optimizer object, \<open>'c\<close> the opaque arguments
  that \<^verbatim>\<open>add_module\<close> hands through to the base class.
  \<^verbatim>\<open>optim.apply_gradients\<close> checks what it is given before it steps and raises when the
  check fails (a \<^verbatim>\<open>ValueError\<close> when no variable comes with a gradient), so it
  returns an error or the new optimizer state with the new values of the variables.
\<close>

record ('v, 'o, 'c) env =
  forward_train :: "(module_id \<times> rl_module) list \<Rightarrow> (param_ref \<Rightarrow> 'v) \<Rightarrow> 'v nested_dict \<Rightarrow> 'v"
  compute_loss :: "'v \<Rightarrow> 'v nested_dict \<Rightarrow> 'v py_loss"
  gradient :: "'v tape \<Rightarrow> 'v \<Rightarrow> param_ref \<Rightarrow> 'v"
  on_after_compute_gradients :: "'v gradients \<Rightarrow> 'v gradients"
  optimizer_apply :: "'o \<Rightarrow> ('v \<times> 'v) list \<Rightarrow> error + 'o \<times> 'v list"
  convert_to_tensor :: "'v \<Rightarrow> dtype \<Rightarrow> 'v"
  convert_to_numpy :: "'v \<Rightarrow> 'v"
  array_mean :: "'v \<Rightarrow> 'v"
  np_mean :: "'v list \<Rightarrow> 'v"
  Adam :: "real \<Rightarrow> 'o"
  make_module :: "('v, 'o) rl_trainer \<Rightarrow> (module_id \<times> rl_module) list \<times> (param_ref \<Rightarrow> 'v)"
  super_add_module ::
    "module_id \<Rightarrow> 'c \<Rightarrow> 'c \<Rightarrow> 'c option \<Rightarrow> 'c option \<Rightarrow> ('v, 'o) rl_trainer \<Rightarrow> ('v, 'o) rl_trainer"
  super_remove_module :: "module_id \<Rightarrow> ('v, 'o) rl_trainer \<Rightarrow> ('v, 'o) rl_trainer"

subsection \<open>Python dictionaries and comprehensions\<close>

text \<open>\<^verbatim>\<open>d[k]\<close> raises \<^verbatim>\<open>KeyError\<close> on a missing key.\<close>

definition getitem :: "('k \<times> 'a) list \<Rightarrow> 'k \<Rightarrow> error + 'a" where
  "getitem d k = (case map_of d k of None \<Rightarrow> Inl KeyError | Some v \<Rightarrow> Inr v)"

text \<open>A list comprehension whose element expression may raise stops at the first raise.\<close>

fun comprehension :: "('a \<Rightarrow> error + 'b) \<Rightarrow> 'a list \<Rightarrow> error + 'b list" where
  "comprehension f [] = Inr []"
| "comprehension f (x # xs) =
     (case f x of
        Inl err \<Rightarrow> Inl err
      | Inr y \<Rightarrow> (case comprehension f xs of Inl err \<Rightarrow> Inl err | Inr ys \<Rightarrow> Inr (y # ys)))"

text \<open>\<^verbatim>\<open>tree.flatten\<close> of a dictionary lists its values in the order of the sorted keys.\<close>

definition tree_flatten :: "('k::linorder \<times> 'a) list \<Rightarrow> 'a list" where
  "tree_flatten d = map snd (sort_key fst d)"

definition log :: "event list \<Rightarrow> ('v, 'o) tf_rl_trainer \<Rightarrow> ('v, 'o) tf_rl_trainer" where
  "log evs t = t\<lparr>trace := trace t @ evs\<rparr>"

subsection \<open>Construction\<close>

text \<open>
  \<^verbatim>\<open>__init__\<close>: \<open>b\<close> is the state that \<^verbatim>\<open>super().__init__\<close> has set up from
  \<^verbatim>\<open>module_class\<close>, \<^verbatim>\<open>module_kwargs\<close>, \<^verbatim>\<open>optimizer_config\<close>, \<^verbatim>\<open>distributed\<close>
  and \<^verbatim>\<open>in_test\<close>.
\<close>

definition init :: "('v, 'o) rl_trainer \<Rightarrow> bool \<Rightarrow> ('v, 'o) tf_rl_trainer" where
  "init b enable =
     \<lparr>base = b,
      enable_tf_function = enable,
      update_fn = (if enable then Compiled None else Eager),
      strategy = None,
      trace = []\<rparr>"

definition structure_of :: "('v, 'o) rl_trainer \<Rightarrow> py_structure" where
  "structure_of b =
     \<lparr>s_module = module b, s_params = params b, s_optim_to_param = optim_to_param b\<rparr>"

subsection \<open>Optimizers\<close>

text \<open>\<^verbatim>\<open>self.optimizer_config.get("lr", 1e-3)\<close>\<close>

definition get_lr :: "(string \<times> real) list \<Rightarrow> real" where
  "get_lr cfg = (case map_of cfg ''lr'' of None \<Rightarrow> 1 / 1000 | Some lr \<Rightarrow> lr)"

text \<open>
  The comprehension runs over \<^verbatim>\<open>self._module.keys()\<close> and reads \<^verbatim>\<open>self._module[key]\<close>
  for each key.
\<close>

definition configure_optimizers ::
  "('v, 'o, 'c) env \<Rightarrow> ('v, 'o) tf_rl_trainer \<Rightarrow> error + (param_ref list \<times> 'o) list" where
  "configure_optimizers e t =
     (let lr = get_lr (optimizer_config (base t))
      in comprehension
           (\<lambda>key. case getitem (module (base t)) key of
                     Inl err \<Rightarrow> Inl err
                   | Inr m \<Rightarrow> Inr (trainable_variables m, Adam e lr))
           (map fst (module (base t))))"

definition get_optimizer_obj ::
  "('v, 'o) tf_rl_trainer \<Rightarrow> rl_module \<Rightarrow> (real \<Rightarrow> 'o) \<Rightarrow> 'o" where
  "get_optimizer_obj t m optimizer_cls = optimizer_cls (get_lr (optimizer_config (base t)))"

text \<open>\<^verbatim>\<open>get_parameters\<close> and \<^verbatim>\<open>get_param_ref\<close>: a variable is identified by its reference.\<close>

definition get_parameters :: "rl_module \<Rightarrow> param_ref list" where
  "get_parameters m = trainable_variables m"

definition get_param_ref :: "param_ref \<Rightarrow> param_ref" where
  "get_param_ref param = param"

subsection \<open>The update cycle\<close>

text \<open>\<^verbatim>\<open>loss["total_loss"]\<close>: only a mapping can be indexed by a name.\<close>

definition loss_getitem :: "'v py_loss \<Rightarrow> string \<Rightarrow> error + 'v" where
  "loss_getitem loss k =
     (case loss of
        LossMapping m \<Rightarrow> getitem m k
      | TfTensor x \<Rightarrow> Inl TypeError
      | OtherObject x \<Rightarrow> Inl TypeError)"

text \<open>
  \<^verbatim>\<open>tape.gradient(target, sources)\<close> returns one gradient per source, in the
  structure of \<open>sources\<close>; here the sources are the dictionary \<^verbatim>\<open>self._params\<close>.
  The argument \<open>self\<close> is the structure the running function sees.
\<close>

definition compute_gradients ::
  "('v, 'o, 'c) env \<Rightarrow> py_structure \<Rightarrow> 'v py_loss \<Rightarrow> 'v tape \<Rightarrow> error + 'v gradients" where
  "compute_gradients e self loss tape =
     (case loss_getitem loss ''total_loss'' of
        Inl err \<Rightarrow> Inl err
      | Inr target \<Rightarrow> Inr (map (\<lambda>r. (r, gradient e tape target r)) (s_params self)))"

text \<open>The body of the loop of \<^verbatim>\<open>apply_gradients\<close> for one optimizer.\<close>

definition apply_gradients_step ::
  "('v, 'o, 'c) env \<Rightarrow> py_structure \<Rightarrow> 'v gradients \<Rightarrow> optim_id \<times> param_ref list \<Rightarrow>
   ('v, 'o) tf_rl_trainer \<Rightarrow> (error + unit) \<times> ('v, 'o) tf_rl_trainer" where
  "apply_gradients_step e self gradients item t =
     (case item of (optim, param_ref_seq) \<Rightarrow>
       (case comprehension
               (\<lambda>param_ref. if param_ref \<in> set (s_params self) then Inr param_ref else Inl KeyError)
               param_ref_seq of
          Inl err \<Rightarrow> (Inl err, t)
        | Inr variable_list \<Rightarrow>
           (case comprehension (getitem gradients) param_ref_seq of
              Inl err \<Rightarrow> (Inl err, t)
            | Inr gradient_list \<Rightarrow>
               (let b = base t
                in case optimizer_apply e (optimizers b optim)
                          (zip gradient_list (map (variables b) variable_list)) of
                     Inl err \<Rightarrow> (Inl err, t)
                   | Inr stepped \<Rightarrow>
                       (let b' = b\<lparr>variables :=
                                      fold (\<lambda>(r, v) f. f(r := v)) (zip variable_list (snd stepped))
                                        (variables b),
                                   optimizers := (optimizers b)(optim := fst stepped)\<rparr>
                        in (Inr (), log [OptimizerApply optim] (t\<lparr>base := b'\<rparr>)))))))"

fun apply_gradients_loop ::
  "('v, 'o, 'c) env \<Rightarrow> py_structure \<Rightarrow> 'v gradients \<Rightarrow> (optim_id \<times> param_ref list) list \<Rightarrow>
   ('v, 'o) tf_rl_trainer \<Rightarrow> (error + unit) \<times> ('v, 'o) tf_rl_trainer" where
  "apply_gradients_loop e self gradients [] t = (Inr (), t)"
| "apply_gradients_loop e self gradients (item # items) t =
     (case apply_gradients_step e self gradients item t of
        (Inl err, t') \<Rightarrow> (Inl err, t')
      | (Inr u, t') \<Rightarrow> apply_gradients_loop e self gradients items t')"

definition apply_gradients ::
  "('v, 'o, 'c) env \<Rightarrow> py_structure \<Rightarrow> 'v gradients \<Rightarrow>
   ('v, 'o) tf_rl_trainer \<Rightarrow> (error + unit) \<times> ('v, 'o) tf_rl_trainer" where
  "apply_gradients e self gradients t =
     apply_gradients_loop e self gradients (s_optim_to_param self) t"

text \<open>\<^verbatim>\<open>if isinstance(loss, tf.Tensor): loss = {"total_loss": loss}\<close>\<close>

definition wrap_loss :: "'v py_loss \<Rightarrow> 'v py_loss" where
  "wrap_loss loss = (case loss of TfTensor x \<Rightarrow> LossMapping [(''total_loss'', x)] | _ \<Rightarrow> loss)"

text \<open>The class attribute \<^verbatim>\<open>TOTAL_LOSS_KEY\<close>.\<close>

definition TOTAL_LOSS_KEY :: string where
  "TOTAL_LOSS_KEY = ''total_loss''"

text \<open>
  The block under \<^verbatim>\<open>with tf.GradientTape() as tape\<close>: it yields the forward output,
  the loss and the tape that recorded both computations.
\<close>

definition gradient_tape_block ::
  "('v, 'o, 'c) env \<Rightarrow> py_structure \<Rightarrow> 'v nested_dict \<Rightarrow> ('v, 'o) tf_rl_trainer \<Rightarrow>
   'v \<times> 'v py_loss \<times> 'v tape \<times> ('v, 'o) tf_rl_trainer" where
  "gradient_tape_block e self batch t =
     (let fwd_out = forward_train e (s_module self) (variables (base t)) batch;
          computed = compute_loss e fwd_out batch
      in (fwd_out, wrap_loss computed,
          [RecForwardTrain batch fwd_out, RecComputeLoss fwd_out batch computed],
          log [TapeEnter, ForwardTrain, ComputeLoss, TapeExit] t))"

definition do_update_fn ::
  "('v, 'o, 'c) env \<Rightarrow> py_structure \<Rightarrow> 'v nested_dict \<Rightarrow>
   ('v, 'o) tf_rl_trainer \<Rightarrow> (error + 'v update_outs) \<times> ('v, 'o) tf_rl_trainer" where
  "do_update_fn e self batch t =
     (case gradient_tape_block e self batch t of (fwd_out, loss, tape, t1) \<Rightarrow>
       (case compute_gradients e self loss tape of
          Inl err \<Rightarrow> (Inl err, t1)
        | Inr grads \<Rightarrow>
            (let gradients = on_after_compute_gradients e grads;
                 t2 = log [TapeGradient, OnAfterComputeGradients] t1
             in case apply_gradients e self gradients t2 of
                  (Inl err, t3) \<Rightarrow> (Inl err, t3)
                | (Inr u, t3) \<Rightarrow>
                    (Inr \<lparr>out_loss = loss, out_fwd_out = fwd_out,
                          out_post_processed_gradients = gradients\<rparr>, t3))))"

text \<open>
  Calling \<^verbatim>\<open>self._update_fn(batch)\<close>. The bound method runs the body as it stands:
  it reads \<^verbatim>\<open>self\<close> as it is now, and when a statement raises, the statements before
  it have taken effect. A \<^verbatim>\<open>tf.function\<close> first runs the body on symbolic tensors to
  build a graph, against \<^verbatim>\<open>self\<close> as it is now or, when it holds a graph already,
  against the structure frozen in that graph; the exceptions of the body are raised
  during this trace, before any operation has run, and leave the trainer as it was.
  When the trace goes through, the operations of the graph run and the graph is kept.
\<close>

definition call_update_fn ::
  "('v, 'o, 'c) env \<Rightarrow> 'v nested_dict \<Rightarrow>
   ('v, 'o) tf_rl_trainer \<Rightarrow> (error + 'v update_outs) \<times> ('v, 'o) tf_rl_trainer" where
  "call_update_fn e batch t =
     (case update_fn t of
        Eager \<Rightarrow> do_update_fn e (structure_of (base t)) batch t
      | Compiled graph \<Rightarrow>
          (let self = (case graph of None \<Rightarrow> structure_of (base t) | Some traced \<Rightarrow> traced)
           in case do_update_fn e self batch t of
                (Inl err, t') \<Rightarrow> (Inl err, t)
              | (Inr outs, t') \<Rightarrow> (Inr outs, t'\<lparr>update_fn := Compiled (Some self)\<rparr>)))"

text \<open>
  \<^verbatim>\<open>self.strategy.run(self._update_fn, args=(batch,))\<close>: the attribute \<^verbatim>\<open>strategy\<close>
  exists only after \<^verbatim>\<open>_make_distributed\<close>; the call runs the function on the local
  replica and hands its outputs back.
\<close>

definition do_distributed_update ::
  "('v, 'o, 'c) env \<Rightarrow> 'v nested_dict \<Rightarrow>
   ('v, 'o) tf_rl_trainer \<Rightarrow> (error + 'v update_outs) \<times> ('v, 'o) tf_rl_trainer" where
  "do_distributed_update e batch t =
     (case strategy t of
        None \<Rightarrow> (Inl AttributeError, t)
      | Some s \<Rightarrow>
          (case call_update_fn e batch (log [StrategyRunBegin] t) of
             (Inl err, t') \<Rightarrow> (Inl err, t')
           | (Inr update_outs, t') \<Rightarrow> (Inr update_outs, log [StrategyRunEnd] t')))"

subsection \<open>Batches and results\<close>

text \<open>\<^verbatim>\<open>NestedDict(batch.policy_batches)\<close>: the leaves are the columns of each policy's batch.\<close>

definition NestedDict :: "(module_id \<times> 'v sample_batch) list \<Rightarrow> 'v nested_dict" where
  "NestedDict pbs = concat (map (\<lambda>(pid, sb). map (\<lambda>(col, v). ([pid, col], v)) sb) pbs)"

text \<open>
  \<^verbatim>\<open>for key, value in batch.items(): batch[key] = tf.convert_to_tensor(value, dtype=tf.float32)\<close>
\<close>

definition convert_batch_to_tf_tensor ::
  "('v, 'o, 'c) env \<Rightarrow> 'v multi_agent_batch \<Rightarrow>
   ('v, 'o) tf_rl_trainer \<Rightarrow> 'v nested_dict \<times> ('v, 'o) tf_rl_trainer" where
  "convert_batch_to_tf_tensor e batch t =
     (let nd = NestedDict (policy_batches batch)
      in (fold (\<lambda>(key, value) d. AList.update key (convert_to_tensor e value Float32) d) nd nd,
          log (map (\<lambda>(key, value). ConvertToTensor key) nd) t))"

text \<open>
  \<^verbatim>\<open>convert_to_numpy\<close> maps over the leaves of a structure; \<^verbatim>\<open>get_weights()\<close> returns
  the current values of a module's weights as host arrays. \<^verbatim>\<open>compile_results\<close> also
  converts the batch and the forward output is passed in, but neither is read afterwards.
\<close>

definition get_weights :: "('v, 'o, 'c) env \<Rightarrow> ('v, 'o) rl_trainer \<Rightarrow> rl_module \<Rightarrow> 'v list" where
  "get_weights e b m = map (\<lambda>r. convert_to_numpy e (variables b r)) (weight_variables m)"

definition compile_results ::
  "('v, 'o, 'c) env \<Rightarrow> ('v, 'o) tf_rl_trainer \<Rightarrow> 'v nested_dict \<Rightarrow> 'v \<Rightarrow> 'v py_loss \<Rightarrow>
   'v gradients \<Rightarrow> error + (string \<times> 'v result_value) list" where
  "compile_results e t batch fwd_out postprocessed_loss post_processed_gradients =
     (let loss_numpy = map_py_loss (convert_to_numpy e) postprocessed_loss;
          grads_numpy = map (\<lambda>(r, g). (r, convert_to_numpy e g)) post_processed_gradients;
          mean_grads = map (array_mean e) (tree_flatten grads_numpy);
          ret = [(''loss'', LossValue loss_numpy),
                 (''mean_gradient'', Scalar (np_mean e mean_grads))]
      in if in_test (base t) then
           (case comprehension
                   (\<lambda>module_id. case getitem (module (base t)) module_id of
                        Inl err \<Rightarrow> Inl err
                      | Inr m \<Rightarrow> Inr (module_id,
                                 np_mean e (map (array_mean e) (get_weights e (base t) m))))
                   (map fst (module (base t))) of
              Inl err \<Rightarrow> Inl err
            | Inr mean_ws \<Rightarrow> Inr (ret @ [(''mean_weight'', PerModule mean_ws)]))
         else Inr ret)"

definition update ::
  "('v, 'o, 'c) env \<Rightarrow> 'v multi_agent_batch \<Rightarrow> ('v, 'o) tf_rl_trainer \<Rightarrow>
   (error + (string \<times> 'v result_value) list) \<times> ('v, 'o) tf_rl_trainer" where
  "update e batch t =
     (if set (map fst (policy_batches batch)) \<noteq> set (map fst (module (base t)))
      then (Inl ValueError, t)
      else
        (case convert_batch_to_tf_tensor e batch t of (batch', t1) \<Rightarrow>
          (case (if distributed (base t1) then do_distributed_update e batch' t1
                 else call_update_fn e batch' t1) of
             (Inl err, t2) \<Rightarrow> (Inl err, t2)
           | (Inr update_outs, t2) \<Rightarrow>
               (compile_results e t2 batch' (out_fwd_out update_outs) (out_loss update_outs)
                  (out_post_processed_gradients update_outs), t2))))"

subsection \<open>Module lifecycle\<close>

text \<open>
  \<^verbatim>\<open>_make_module\<close> of the base class builds the module from \<^verbatim>\<open>module_class\<close> and
  \<^verbatim>\<open>module_kwargs\<close> and hands it back; what it leaves behind is the store with the
  variables of the new module. \<^verbatim>\<open>_make_distributed\<close> returns the module to its caller
  in the base class and assigns nothing but \<^verbatim>\<open>self.strategy\<close>.
\<close>

definition make_distributed ::
  "('v, 'o, 'c) env \<Rightarrow> ('v, 'o) tf_rl_trainer \<Rightarrow>
   (module_id \<times> rl_module) list \<times> ('v, 'o) tf_rl_trainer" where
  "make_distributed e t =
     (let t1 = log [StrategyCreate, ScopeEnter] (t\<lparr>strategy := Some MultiWorkerMirroredStrategy\<rparr>);
          made = make_module e (base t1)
      in (fst made,
          log [MakeModule, ScopeExit] (t1\<lparr>base := (base t1)\<lparr>variables := snd made\<rparr>\<rparr>)))"

text \<open>The assignment that ends \<^verbatim>\<open>add_module\<close> and \<^verbatim>\<open>remove_module\<close>.\<close>

definition rewrap :: "('v, 'o) tf_rl_trainer \<Rightarrow> ('v, 'o) tf_rl_trainer" where
  "rewrap t = (if enable_tf_function t then t\<lparr>update_fn := Compiled None\<rparr> else t)"

definition add_module ::
  "('v, 'o, 'c) env \<Rightarrow> module_id \<Rightarrow> 'c \<Rightarrow> 'c \<Rightarrow> 'c option \<Rightarrow> 'c option \<Rightarrow>
   ('v, 'o) tf_rl_trainer \<Rightarrow> (error + unit) \<times> ('v, 'o) tf_rl_trainer" where
  "add_module e module_id module_cls module_kwargs set_optimizer_fn optimizer_cls t =
     (let super = (\<lambda>t. log [SuperAddModule module_id]
                     (t\<lparr>base := super_add_module e module_id module_cls module_kwargs
                                  set_optimizer_fn optimizer_cls (base t)\<rparr>))
      in if distributed (base t) then
           (case strategy t of
              None \<Rightarrow> (Inl AttributeError, t)
            | Some s \<Rightarrow> (Inr (), rewrap (log [ScopeExit] (super (log [ScopeEnter] t)))))
         else (Inr (), rewrap (super t)))"

definition remove_module ::
  "('v, 'o, 'c) env \<Rightarrow> module_id \<Rightarrow>
   ('v, 'o) tf_rl_trainer \<Rightarrow> (error + unit) \<times> ('v, 'o) tf_rl_trainer" where
  "remove_module e module_id t =
     (let super = (\<lambda>t. log [SuperRemoveModule module_id]
                     (t\<lparr>base := super_remove_module e module_id (base t)\<rparr>))
      in if distributed (base t) then
           (case strategy t of
              None \<Rightarrow> (Inl AttributeError, t)
            | Some s \<Rightarrow> (Inr (), rewrap (log [ScopeExit] (super (log [ScopeEnter] t)))))
         else (Inr (), rewrap (super t)))"

subsection \<open>Calls and sessions\<close>





subsection \<open>Invariants\<close>

text \<open>
  The graph held by \<^verbatim>\<open>self._update_fn\<close>, if there is one, was traced against the
  structure the trainer has now.
\<close>

definition update_fn_current :: "('v, 'o) tf_rl_trainer \<Rightarrow> bool" where
  "update_fn_current t =
     (case update_fn t of
        Eager \<Rightarrow> True
      | Compiled None \<Rightarrow> True
      | Compiled (Some self) \<Rightarrow> self = structure_of (base t))"


text \<open>
  A list of events keeps the module lifecycle inside the strategy's scope when every
  creation, addition and removal of a module happens at a positive nesting depth of
  \<^verbatim>\<open>with self.strategy.scope()\<close>; \<open>d\<close> is the depth at the start of the list.
\<close>

fun lifecycle_in_scope :: "nat \<Rightarrow> event list \<Rightarrow> bool" where
  "lifecycle_in_scope d [] = True"
| "lifecycle_in_scope d (ScopeEnter # evs) = lifecycle_in_scope (Suc d) evs"
| "lifecycle_in_scope d (ScopeExit # evs) = lifecycle_in_scope (d - 1) evs"
| "lifecycle_in_scope d (MakeModule # evs) = (0 < d \<and> lifecycle_in_scope d evs)"
| "lifecycle_in_scope d (SuperAddModule m # evs) = (0 < d \<and> lifecycle_in_scope d evs)"
| "lifecycle_in_scope d (SuperRemoveModule m # evs) = (0 < d \<and> lifecycle_in_scope d evs)"
| "lifecycle_in_scope d (ev # evs) = lifecycle_in_scope d evs"

subsection \<open>What applying the gradients comes to\<close>


subsection \<open>A concrete trainer\<close>

text \<open>
  A small instance of the collaborators, a trainer and a batch, on which the properties
  below are evaluated. Values carry a dtype and an integer payload; \<open>PyNone\<close> is the
  gradient of a variable the loss does not depend on, and the optimizer raises
  \<^verbatim>\<open>ValueError\<close> when none of its variables comes with a gradient.
\<close>

datatype ex_value = NumpyArray dtype int | Tensor dtype int | PyNone

fun payload :: "ex_value \<Rightarrow> int" where
  "payload (NumpyArray d x) = x"
| "payload (Tensor d x) = x"
| "payload PyNone = 0"

fun dtype_of :: "ex_value \<Rightarrow> dtype" where
  "dtype_of (NumpyArray d x) = d"
| "dtype_of (Tensor d x) = d"
| "dtype_of PyNone = Float32"

definition ex_env :: "(ex_value, real \<times> nat, unit) env" where
  "ex_env =
     \<lparr>forward_train = (\<lambda>ms vars b. Tensor Float32 (sum_list (map (payload \<circ> snd) b)
                          + sum_list (map (payload \<circ> vars) (concat (map (trainable_variables \<circ> snd) ms))))),
      compute_loss = (\<lambda>fwd b. TfTensor fwd),
      gradient = (\<lambda>tape target r. Tensor Float32 (payload target + int r)),
      on_after_compute_gradients = (\<lambda>g. g),
      optimizer_apply = (\<lambda>opt gvs.
          if gvs \<noteq> [] \<and> list_all (\<lambda>gv. fst gv = PyNone) gvs then Inl ValueError
          else Inr ((fst opt, Suc (snd opt)),
                    map (\<lambda>(g, v). Tensor Float32 (payload v - payload g)) gvs)),
      convert_to_tensor = (\<lambda>v d. Tensor d (payload v)),
      convert_to_numpy = (\<lambda>v. NumpyArray (dtype_of v) (payload v)),
      array_mean = (\<lambda>v. v),
      np_mean = (\<lambda>vs. NumpyArray Float64 (sum_list (map payload vs))),
      Adam = (\<lambda>lr. (lr, 0)),
      make_module = (\<lambda>b. (module b, variables b)),
      super_add_module = (\<lambda>module_id cls kwargs f oc b.
          b\<lparr>module := module b @ [(module_id, \<lparr>trainable_variables = [7], weight_variables = [7]\<rparr>)],
            params := params b @ [7],
            optim_to_param := optim_to_param b @ [(3, [7])]\<rparr>),
      super_remove_module = (\<lambda>module_id b. b\<lparr>module := filter (\<lambda>kv. fst kv \<noteq> module_id) (module b)\<rparr>)\<rparr>"

definition ex_base :: "(ex_value, real \<times> nat) rl_trainer" where
  "ex_base =
     \<lparr>module = [(''p0'', \<lparr>trainable_variables = [0, 1], weight_variables = [0, 1]\<rparr>)],
      params = [0, 1],
      optim_to_param = [(0, [0, 1])],
      optimizer_config = [],
      distributed = False,
      in_test = False,
      variables = (\<lambda>r. Tensor Float32 (int r + 10)),
      optimizers = (\<lambda>i. (1 / 1000, 0))\<rparr>"

definition ex_batch :: "ex_value multi_agent_batch" where
  "ex_batch = \<lparr>policy_batches = [(''p0'', [(''obs'', NumpyArray Int64 3), (''rewards'', NumpyArray Float64 4)])],
               env_steps = 1\<rparr>"

definition ex_foreign_batch :: "ex_value multi_agent_batch" where
  "ex_foreign_batch = \<lparr>policy_batches = [(''p1'', [(''obs'', NumpyArray Int64 3)])], env_steps = 1\<rparr>"

definition ex_distributed :: "(ex_value, real \<times> nat) tf_rl_trainer" where
  "ex_distributed = snd (make_distributed ex_env (init (ex_base\<lparr>distributed := True\<rparr>) True))"

text \<open>
  A trainer whose graph is out of date: it has run one update, and its base state then
  gained a module without the re-wrap that ends \<^verbatim>\<open>add_module\<close>.
\<close>

definition ex_two_batch :: "ex_value multi_agent_batch" where
  "ex_two_batch = \<lparr>policy_batches = [(''p0'', [(''obs'', NumpyArray Int64 3)]),
                                       (''p1'', [(''obs'', NumpyArray Int64 5)])],
                   env_steps = 1\<rparr>"

definition ex_stale :: "(ex_value, real \<times> nat) tf_rl_trainer" where
  "ex_stale =
     (let t = snd (update ex_env ex_batch (init ex_base True))
      in t\<lparr>base := super_add_module ex_env ''p1'' () () None None (base t)\<rparr>)"

text \<open>
  A trainer with two modules, each with its own optimizer; collaborators whose loss has no
  \<^verbatim>\<open>"total_loss"\<close> entry; and collaborators whose loss does not depend on the second
  module, so that the tape has no gradient for its variable. Removing that module also
  removes its variable and its optimizer.
\<close>

definition ex_two_base :: "(ex_value, real \<times> nat) rl_trainer" where
  "ex_two_base = super_add_module ex_env ''p1'' () () None None ex_base"


definition ex_env_unconnected :: "(ex_value, real \<times> nat, unit) env" where
  "ex_env_unconnected =
     ex_env\<lparr>gradient := (\<lambda>tape target r. if r = 7 then PyNone
                                         else Tensor Float32 (payload target + int r)),
            super_remove_module := (\<lambda>module_id b.
                b\<lparr>module := filter (\<lambda>kv. fst kv \<noteq> module_id) (module b),
                  params := filter (\<lambda>r. r \<noteq> 7) (params b),
                  optim_to_param := filter (\<lambda>item. fst item \<noteq> 3) (optim_to_param b)\<rparr>)\<rparr>"


section \<open>Properties\<close>

subsection \<open>Optimizers\<close>

lemma comprehension_all_Inr:
  "(\<And>x. x \<in> set xs \<Longrightarrow> f x = Inr (g x)) \<Longrightarrow> comprehension f xs = Inr (map g xs)"
  by (induction xs) auto

lemma getitem_distinct:
  "distinct (map fst d) \<Longrightarrow> (k, v) \<in> set d \<Longrightarrow> getitem d k = Inr v"
  by (simp add: getitem_def)

lemma comprehension_getitem_keys:
  assumes "distinct (map fst d)"
  shows "comprehension (\<lambda>key. case getitem d key of Inl err \<Rightarrow> Inl err | Inr m \<Rightarrow> Inr (h key m)) (map fst d)
         = Inr (map (\<lambda>(key, m). h key m) d)"
proof -
  have "comprehension (\<lambda>key. case getitem d key of Inl err \<Rightarrow> Inl err | Inr m \<Rightarrow> Inr (h key m)) (map fst d)
        = Inr (map (\<lambda>key. h key (the (map_of d key))) (map fst d))"
    by (rule comprehension_all_Inr) (auto simp: getitem_def split: option.splits dest: weak_map_of_SomeI)
  moreover have "map (\<lambda>key. h key (the (map_of d key))) (map fst d) = map (\<lambda>(key, m). h key m) d"
    using assms by (auto simp: map_of_eq_Some_iff)
  ultimately show ?thesis by simp
qed

text \<open>
  Claim C3. \<^verbatim>\<open>configure_optimizers\<close> returns one pair per entry of the module registry,
  made of that module's trainable variables and an Adam optimizer; it and
  \<^verbatim>\<open>get_optimizer_obj\<close> build the optimizer with the learning rate stored under
  \<^verbatim>\<open>"lr"\<close> in the optimizer configuration, and with \<open>1e-3\<close> when that key is absent.
  The registry is a dictionary, so its keys are distinct.
\<close>

theorem configure_optimizers_one_adam_per_module:
  assumes "distinct (map fst (module (base t)))"
  shows "configure_optimizers e t =
           Inr (map (\<lambda>(key, m). (trainable_variables m, Adam e (get_lr (optimizer_config (base t)))))
                  (module (base t)))
         \<and> get_optimizer_obj t m optimizer_cls = optimizer_cls (get_lr (optimizer_config (base t)))
         \<and> (map_of (optimizer_config (base t)) ''lr'' = None \<longrightarrow>
              get_lr (optimizer_config (base t)) = 1 / 1000)
         \<and> (\<forall>lr. map_of (optimizer_config (base t)) ''lr'' = Some lr \<longrightarrow>
              get_lr (optimizer_config (base t)) = lr)"
  using comprehension_getitem_keys[OF assms]
  by (simp add: configure_optimizers_def get_optimizer_obj_def get_lr_def Let_def)


theorem configure_optimizers_witness:
  "distinct (map fst (module (base (init ex_base True))))
   \<and> configure_optimizers ex_env (init ex_base True) = Inr [([0, 1], (1 / 1000, 0))]
   \<and> get_optimizer_obj (init ex_base True) \<lparr>trainable_variables = [], weight_variables = []\<rparr>
        (\<lambda>lr. (lr, 5 :: nat)) = (1 / 1000, 5)
   \<and> get_lr (optimizer_config (base (init (ex_base\<lparr>optimizer_config := [(''lr'', 1 / 2)]\<rparr>) True))) = 1 / 2"
  using configure_optimizers_one_adam_per_module
          [of "init ex_base True" ex_env "\<lparr>trainable_variables = [], weight_variables = []\<rparr>"
              "\<lambda>lr. (lr, 5 :: nat)"]
        configure_optimizers_one_adam_per_module
          [of "init (ex_base\<lparr>optimizer_config := [(''lr'', 1 / 2)]\<rparr>) True" ex_env]
  by (simp add: ex_base_def init_def ex_env_def get_lr_def)

subsection \<open>The loss handed to the gradient computation\<close>

lemma log_simps [simp]:
  "trace (log evs t) = trace t @ evs"
  "base (log evs t) = base t"
  "update_fn (log evs t) = update_fn t"
  "strategy (log evs t) = strategy t"
  "enable_tf_function (log evs t) = enable_tf_function t"
  by (simp_all add: log_def)

lemma apply_gradients_step_trace:
  "\<exists>evs. trace (snd (apply_gradients_step e self g item t)) = trace t @ evs"
  by (auto simp: apply_gradients_step_def Let_def split: prod.splits sum.splits)

lemma apply_gradients_loop_trace:
  "\<exists>evs. trace (snd (apply_gradients_loop e self g items t)) = trace t @ evs"
proof (induction items arbitrary: t)
  case Nil
  then show ?case by simp
next
  case (Cons item items)
  obtain r t' where step: "apply_gradients_step e self g item t = (r, t')"
    by (cases "apply_gradients_step e self g item t")
  from apply_gradients_step_trace[of e self g item t] step
  obtain evs where evs: "trace t' = trace t @ evs" by auto
  show ?case
  proof (cases r)
    case (Inl err)
    with step evs show ?thesis by simp
  next
    case (Inr u)
    from Cons.IH[of t'] obtain evs' where "trace (snd (apply_gradients_loop e self g items t')) = trace t' @ evs'"
      by auto
    with step evs Inr show ?thesis by simp
  qed
qed

lemma wrap_loss_lookup:
  assumes "(\<exists>x. l = TfTensor x) \<or> (\<exists>m. l = LossMapping m \<and> TOTAL_LOSS_KEY \<in> fst ` set m)"
  shows "\<exists>target. loss_getitem (wrap_loss l) ''total_loss'' = Inr target"
proof -
  from assms consider (tensor) x where "l = TfTensor x"
    | (mapping) m where "l = LossMapping m" "TOTAL_LOSS_KEY \<in> fst ` set m" by blast
  then show ?thesis
  proof cases
    case tensor
    then show ?thesis by (simp add: wrap_loss_def loss_getitem_def getitem_def)
  next
    case mapping
    then have "map_of m ''total_loss'' \<noteq> None"
      by (simp add: TOTAL_LOSS_KEY_def map_of_eq_None_iff)
    with mapping show ?thesis
      by (auto simp: wrap_loss_def loss_getitem_def getitem_def)
  qed
qed

text \<open>
  Claim C9. A bare tensor returned by \<^verbatim>\<open>compute_loss\<close> is wrapped under the key
  \<^verbatim>\<open>TOTAL_LOSS_KEY\<close>; when \<^verbatim>\<open>compute_loss\<close> returns a bare tensor or a mapping
  that has the key \<^verbatim>\<open>"total_loss"\<close>, the lookup in \<^verbatim>\<open>compute_gradients\<close> succeeds,
  and \<^verbatim>\<open>_do_update_fn\<close> reaches the tape gradient and the gradient hook.
\<close>

theorem total_loss_lookup_never_fails:
  assumes "compute_loss e (forward_train e (s_module self) (variables (base t)) batch) batch = l"
      and "(\<exists>x. l = TfTensor x) \<or> (\<exists>m. l = LossMapping m \<and> TOTAL_LOSS_KEY \<in> fst ` set m)"
  shows "(\<forall>x. l = TfTensor x \<longrightarrow> wrap_loss l = LossMapping [(TOTAL_LOSS_KEY, x)])
       \<and> (\<exists>target. loss_getitem (wrap_loss l) ''total_loss'' = Inr target)
       \<and> (\<exists>grads. compute_gradients e self (wrap_loss l) tape = Inr grads)
       \<and> (\<exists>evs. trace (snd (do_update_fn e self batch t)) =
                  trace t @ [TapeEnter, ForwardTrain, ComputeLoss, TapeExit,
                             TapeGradient, OnAfterComputeGradients] @ evs)"
proof -
  from wrap_loss_lookup[OF assms(2)] obtain target
    where target: "loss_getitem (wrap_loss l) ''total_loss'' = Inr target" by auto
  have c1: "\<forall>x. l = TfTensor x \<longrightarrow> wrap_loss l = LossMapping [(TOTAL_LOSS_KEY, x)]"
    by (simp add: wrap_loss_def TOTAL_LOSS_KEY_def)
  have c3: "\<And>tp. \<exists>grads. compute_gradients e self (wrap_loss l) tp = Inr grads"
    using target by (simp add: compute_gradients_def)
  define tp where "tp = [RecForwardTrain batch (forward_train e (s_module self) (variables (base t)) batch),
                         RecComputeLoss (forward_train e (s_module self) (variables (base t)) batch) batch l]"
  from c3[of tp] obtain grads where grads: "compute_gradients e self (wrap_loss l) tp = Inr grads" by auto
  define t2 where "t2 = log [TapeGradient, OnAfterComputeGradients]
                          (log [TapeEnter, ForwardTrain, ComputeLoss, TapeExit] t)"
  from apply_gradients_loop_trace[of e self "on_after_compute_gradients e grads" "s_optim_to_param self" t2]
  obtain evs where evs: "trace (snd (apply_gradients e self (on_after_compute_gradients e grads) t2)) = trace t2 @ evs"
    by (auto simp: apply_gradients_def)
  have "trace (snd (do_update_fn e self batch t)) = trace t2 @ evs"
    using grads evs assms(1)
    by (cases "apply_gradients e self (on_after_compute_gradients e grads) t2")
       (auto simp: do_update_fn_def gradient_tape_block_def Let_def tp_def t2_def split: sum.splits)
  then have c4: "\<exists>evs. trace (snd (do_update_fn e self batch t)) =
                  trace t @ [TapeEnter, ForwardTrain, ComputeLoss, TapeExit,
                             TapeGradient, OnAfterComputeGradients] @ evs"
    by (simp add: t2_def)
  from c1 target c3 c4 show ?thesis by blast
qed

theorem total_loss_lookup_witness:
  "compute_loss ex_env
     (forward_train ex_env (s_module (structure_of ex_base)) (variables (base (init ex_base False)))
        [([''p0'', ''obs''], Tensor Float32 3)])
     [([''p0'', ''obs''], Tensor Float32 3)] = TfTensor (Tensor Float32 24)
   \<and> wrap_loss (TfTensor (Tensor Float32 24)) = LossMapping [(TOTAL_LOSS_KEY, Tensor Float32 24)]
   \<and> (\<exists>grads. compute_gradients ex_env (structure_of ex_base)
                  (wrap_loss (TfTensor (Tensor Float32 24))) [] = Inr grads)
   \<and> (\<exists>evs. trace (snd (do_update_fn ex_env (structure_of ex_base)
                           [([''p0'', ''obs''], Tensor Float32 3)] (init ex_base False))) =
              [TapeEnter, ForwardTrain, ComputeLoss, TapeExit, TapeGradient,
               OnAfterComputeGradients] @ evs)"
proof -
  have h1: "compute_loss ex_env
     (forward_train ex_env (s_module (structure_of ex_base)) (variables (base (init ex_base False)))
        [([''p0'', ''obs''], Tensor Float32 3)])
     [([''p0'', ''obs''], Tensor Float32 3)] = TfTensor (Tensor Float32 24)"
    by (simp add: ex_env_def ex_base_def structure_of_def init_def)
  have h2: "(\<exists>x. TfTensor (Tensor Float32 24) = TfTensor x)
            \<or> (\<exists>m. TfTensor (Tensor Float32 24) = LossMapping m \<and> TOTAL_LOSS_KEY \<in> fst ` set m)"
    by simp
  from total_loss_lookup_never_fails[OF h1 h2, of "[]"] h1
  show ?thesis by (auto simp add: init_def)
qed

subsection \<open>Tape gradients\<close>

lemma do_update_fn_success:
  assumes "fst (do_update_fn e self batch t) = Inr outs"
  shows "out_fwd_out outs = forward_train e (s_module self) (variables (base t)) batch"
    and "out_loss outs = wrap_loss (compute_loss e (out_fwd_out outs) batch)"
    and "\<exists>grads. compute_gradients e self (out_loss outs)
                    [RecForwardTrain batch (out_fwd_out outs),
                     RecComputeLoss (out_fwd_out outs) batch (compute_loss e (out_fwd_out outs) batch)]
                  = Inr grads
                \<and> out_post_processed_gradients outs = on_after_compute_gradients e grads"
  using assms
  by (auto simp: do_update_fn_def gradient_tape_block_def Let_def split: sum.splits prod.splits)

text \<open>
  Claim C7. \<^verbatim>\<open>compute_gradients\<close> returns, for every parameter registered in
  \<^verbatim>\<open>self._params\<close>, the tape's gradient of the one value \<^verbatim>\<open>loss["total_loss"]\<close> with
  respect to that parameter; the tape that \<^verbatim>\<open>_do_update_fn\<close> hands over is the one
  that recorded the forward pass and the loss computation.
\<close>

theorem compute_gradients_of_total_loss:
  "(loss_getitem loss ''total_loss'' = Inr target \<longrightarrow>
      compute_gradients e self loss tape =
        Inr (map (\<lambda>r. (r, gradient e tape target r)) (s_params self)))
   \<and> (fst (do_update_fn e self batch t) = Inr outs \<longrightarrow>
      (\<exists>target'. loss_getitem (out_loss outs) ''total_loss'' = Inr target'
         \<and> out_post_processed_gradients outs =
             on_after_compute_gradients e
               (map (\<lambda>r. (r, gradient e
                              [RecForwardTrain batch (out_fwd_out outs),
                               RecComputeLoss (out_fwd_out outs) batch
                                 (compute_loss e (out_fwd_out outs) batch)]
                              target' r))
                    (s_params self))))"
proof (intro conjI impI)
  assume "loss_getitem loss ''total_loss'' = Inr target"
  then show "compute_gradients e self loss tape =
        Inr (map (\<lambda>r. (r, gradient e tape target r)) (s_params self))"
    by (simp add: compute_gradients_def)
next
  assume ok: "fst (do_update_fn e self batch t) = Inr outs"
  from do_update_fn_success(3)[OF ok] obtain grads where
    g: "compute_gradients e self (out_loss outs)
          [RecForwardTrain batch (out_fwd_out outs),
           RecComputeLoss (out_fwd_out outs) batch (compute_loss e (out_fwd_out outs) batch)]
        = Inr grads"
    and p: "out_post_processed_gradients outs = on_after_compute_gradients e grads"
    by auto
  from g obtain target' where tg: "loss_getitem (out_loss outs) ''total_loss'' = Inr target'"
    by (auto simp: compute_gradients_def split: sum.splits)
  with g p show "\<exists>target'. loss_getitem (out_loss outs) ''total_loss'' = Inr target'
         \<and> out_post_processed_gradients outs =
             on_after_compute_gradients e
               (map (\<lambda>r. (r, gradient e
                              [RecForwardTrain batch (out_fwd_out outs),
                               RecComputeLoss (out_fwd_out outs) batch
                                 (compute_loss e (out_fwd_out outs) batch)]
                              target' r))
                    (s_params self))"
    by (auto simp: compute_gradients_def)
qed



lemmas cycle_defs =
  do_update_fn_def gradient_tape_block_def compute_gradients_def loss_getitem_def wrap_loss_def
  getitem_def apply_gradients_def apply_gradients_step_def structure_of_def init_def log_def

lemma ex_do_update_fn:
  "fst (do_update_fn ex_env (structure_of ex_base) [([''p0'', ''obs''], Tensor Float32 3)]
          (init ex_base False))
   = Inr \<lparr>out_loss = LossMapping [(''total_loss'', Tensor Float32 24)],
          out_fwd_out = Tensor Float32 24,
          out_post_processed_gradients = [(0, Tensor Float32 24), (1, Tensor Float32 25)]\<rparr>"
  by (simp add: cycle_defs Let_def ex_env_def ex_base_def)

theorem compute_gradients_witness:
  "loss_getitem (LossMapping [(''total_loss'', Tensor Float32 24)]) ''total_loss''
     = Inr (Tensor Float32 24)
   \<and> compute_gradients ex_env (structure_of ex_base)
       (LossMapping [(''total_loss'', Tensor Float32 24)]) []
     = Inr [(0, Tensor Float32 24), (1, Tensor Float32 25)]
   \<and> fst (do_update_fn ex_env (structure_of ex_base) [([''p0'', ''obs''], Tensor Float32 3)]
            (init ex_base False))
     = Inr \<lparr>out_loss = LossMapping [(''total_loss'', Tensor Float32 24)],
            out_fwd_out = Tensor Float32 24,
            out_post_processed_gradients = [(0, Tensor Float32 24), (1, Tensor Float32 25)]\<rparr>
   \<and> [(0, Tensor Float32 24), (1, Tensor Float32 25)]
     = on_after_compute_gradients ex_env
         (map (\<lambda>r. (r, gradient ex_env
                        [RecForwardTrain [([''p0'', ''obs''], Tensor Float32 3)] (Tensor Float32 24),
                         RecComputeLoss (Tensor Float32 24) [([''p0'', ''obs''], Tensor Float32 3)]
                           (compute_loss ex_env (Tensor Float32 24)
                              [([''p0'', ''obs''], Tensor Float32 3)])]
                        (Tensor Float32 24) r))
              [0, 1])"
proof -
  have h1: "loss_getitem (LossMapping [(''total_loss'', Tensor Float32 24)]) ''total_loss''
              = Inr (Tensor Float32 24)"
    by (simp add: loss_getitem_def getitem_def)
  note inst = compute_gradients_of_total_loss
      [of "LossMapping [(''total_loss'', Tensor Float32 24)]" "Tensor Float32 24"
          ex_env "structure_of ex_base" "[]"
          "[([''p0'', ''obs''], Tensor Float32 3)]" "init ex_base False"
          "\<lparr>out_loss = LossMapping [(''total_loss'', Tensor Float32 24)],
            out_fwd_out = Tensor Float32 24,
            out_post_processed_gradients = [(0, Tensor Float32 24), (1, Tensor Float32 25)]\<rparr>"]
  from inst h1 have "compute_gradients ex_env (structure_of ex_base)
       (LossMapping [(''total_loss'', Tensor Float32 24)]) []
     = Inr (map (\<lambda>r. (r, gradient ex_env [] (Tensor Float32 24) r)) (s_params (structure_of ex_base)))"
    by blast
  then have c2: "compute_gradients ex_env (structure_of ex_base)
       (LossMapping [(''total_loss'', Tensor Float32 24)]) []
     = Inr [(0, Tensor Float32 24), (1, Tensor Float32 25)]"
    by (simp add: ex_env_def ex_base_def structure_of_def)
  from inst ex_do_update_fn h1
  have c4: "[(0, Tensor Float32 24), (1, Tensor Float32 25)]
     = on_after_compute_gradients ex_env
         (map (\<lambda>r. (r, gradient ex_env
                        [RecForwardTrain [([''p0'', ''obs''], Tensor Float32 3)] (Tensor Float32 24),
                         RecComputeLoss (Tensor Float32 24) [([''p0'', ''obs''], Tensor Float32 3)]
                           (compute_loss ex_env (Tensor Float32 24)
                              [([''p0'', ''obs''], Tensor Float32 3)])]
                        (Tensor Float32 24) r))
              (s_params (structure_of ex_base)))"
    by auto
  have "s_params (structure_of ex_base) = [0, 1]"
    by (simp add: structure_of_def ex_base_def)
  with h1 c2 c4 ex_do_update_fn show ?thesis by simp
qed

subsection \<open>Compiled results\<close>

lemma insort_key_map_values:
  "insort_key fst (fst x, f (snd x)) (map (\<lambda>a. (fst a, f (snd a))) ys)
   = map (\<lambda>a. (fst a, f (snd a))) (insort_key fst x ys)"
  by (induction ys) auto

lemma sort_key_map_values:
  "sort_key fst (map (\<lambda>a. (fst a, f (snd a))) xs) = map (\<lambda>a. (fst a, f (snd a))) (sort_key fst xs)"
  by (induction xs) (simp_all add: insort_key_map_values)

lemma tree_flatten_map_values:
  "tree_flatten (map (\<lambda>(r, g). (r, f g)) d) = map f (tree_flatten d)"
proof -
  have eq: "(\<lambda>(r, g). (r, f g)) = (\<lambda>a. (fst a, f (snd a)))"
    by (simp add: case_prod_beta fun_eq_iff)
  show ?thesis
    unfolding tree_flatten_def eq sort_key_map_values by (simp add: comp_def)
qed

lemma comprehension_getitem_own_keys:
  "comprehension (\<lambda>key. case getitem d key of Inl err \<Rightarrow> Inl err | Inr m \<Rightarrow> Inr (h key m)) (map fst d)
   = Inr (map (\<lambda>key. h key (the (map_of d key))) (map fst d))"
  by (rule comprehension_all_Inr) (auto simp: getitem_def split: option.splits dest: weak_map_of_SomeI)

text \<open>
  Claim C6. The mapping returned by \<^verbatim>\<open>compile_results\<close> holds under \<^verbatim>\<open>"loss"\<close> the
  loss converted to host arrays and under \<^verbatim>\<open>"mean_gradient"\<close> the mean, over the
  flattened post-processed gradients, of each converted gradient's mean; the entry
  \<^verbatim>\<open>"mean_weight"\<close>, the per-module mean of weight means, is there exactly when the
  trainer was built with \<^verbatim>\<open>in_test=True\<close>.
\<close>

theorem compile_results_entries:
  "\<exists>ret. compile_results e t batch fwd_out loss grads = Inr ret
     \<and> map_of ret ''loss'' = Some (LossValue (map_py_loss (convert_to_numpy e) loss))
     \<and> map_of ret ''mean_gradient'' =
         Some (Scalar (np_mean e (map (\<lambda>g. array_mean e (convert_to_numpy e g)) (tree_flatten grads))))
     \<and> ((''mean_weight'' \<in> fst ` set ret) = in_test (base t))
     \<and> (in_test (base t) \<and> distinct (map fst (module (base t))) \<longrightarrow>
          map_of ret ''mean_weight'' =
            Some (PerModule (map (\<lambda>(module_id, m).
                                (module_id, np_mean e (map (array_mean e) (get_weights e (base t) m))))
                             (module (base t)))))"
proof (cases "in_test (base t)")
  case False
  then show ?thesis
    by (simp add: compile_results_def Let_def tree_flatten_map_values comp_def)
next
  case True
  let ?h = "\<lambda>module_id m. (module_id, np_mean e (map (array_mean e) (get_weights e (base t) m)))"
  have ws: "comprehension (\<lambda>key. case getitem (module (base t)) key of
                                   Inl err \<Rightarrow> Inl err | Inr m \<Rightarrow> Inr (?h key m))
              (map fst (module (base t)))
            = Inr (map (\<lambda>key. ?h key (the (map_of (module (base t)) key))) (map fst (module (base t))))"
    by (rule comprehension_getitem_own_keys)
  have wd: "distinct (map fst (module (base t))) \<Longrightarrow>
            map (\<lambda>key. ?h key (the (map_of (module (base t)) key))) (map fst (module (base t)))
            = map (\<lambda>(module_id, m). ?h module_id m) (module (base t))"
    by (auto simp: map_of_eq_Some_iff)
  from True ws wd show ?thesis
    by (auto simp: compile_results_def Let_def tree_flatten_map_values comp_def)
qed



theorem compile_results_witness:
  "in_test (base (init (ex_base\<lparr>in_test := True\<rparr>) False))
   \<and> distinct (map fst (module (base (init (ex_base\<lparr>in_test := True\<rparr>) False))))
   \<and> (\<exists>ret. compile_results ex_env (init (ex_base\<lparr>in_test := True\<rparr>) False) []
                (Tensor Float32 24) (LossMapping [(''total_loss'', Tensor Float32 24)])
                [(1, Tensor Float32 25), (0, Tensor Float32 24)] = Inr ret
          \<and> map_of ret ''loss'' =
              Some (LossValue (LossMapping [(''total_loss'', NumpyArray Float32 24)]))
          \<and> map_of ret ''mean_gradient'' = Some (Scalar (NumpyArray Float64 49))
          \<and> map_of ret ''mean_weight'' = Some (PerModule [(''p0'', NumpyArray Float64 21)]))"
proof -
  let ?t = "init (ex_base\<lparr>in_test := True\<rparr>) False"
  let ?loss = "LossMapping [(''total_loss'', Tensor Float32 24)]"
  let ?grads = "[(1 :: nat, Tensor Float32 25), (0, Tensor Float32 24)]"
  have h: "in_test (base ?t) \<and> distinct (map fst (module (base ?t)))"
    by (simp add: init_def ex_base_def)
  from compile_results_entries[of ex_env ?t "[]" "Tensor Float32 24" ?loss ?grads] h
  obtain ret where
    r0: "compile_results ex_env ?t [] (Tensor Float32 24) ?loss ?grads = Inr ret" and
    r1: "map_of ret ''loss'' = Some (LossValue (map_py_loss (convert_to_numpy ex_env) ?loss))" and
    r2: "map_of ret ''mean_gradient'' =
           Some (Scalar (np_mean ex_env
                  (map (\<lambda>g. array_mean ex_env (convert_to_numpy ex_env g)) (tree_flatten ?grads))))" and
    r3: "map_of ret ''mean_weight'' =
           Some (PerModule (map (\<lambda>(module_id, m).
                    (module_id, np_mean ex_env (map (array_mean ex_env) (get_weights ex_env (base ?t) m))))
                  (module (base ?t))))"
    by blast
  have e1: "map_py_loss (convert_to_numpy ex_env) ?loss
              = LossMapping [(''total_loss'', NumpyArray Float32 24)]"
    by (simp add: ex_env_def)
  have e2: "np_mean ex_env (map (\<lambda>g. array_mean ex_env (convert_to_numpy ex_env g)) (tree_flatten ?grads))
              = NumpyArray Float64 49"
    by (simp add: ex_env_def tree_flatten_def)
  have e3: "map (\<lambda>(module_id, m).
                    (module_id, np_mean ex_env (map (array_mean ex_env) (get_weights ex_env (base ?t) m))))
                  (module (base ?t)) = [(''p0'', NumpyArray Float64 21)]"
    by (simp add: ex_env_def init_def ex_base_def get_weights_def)
  from h r0 r1 r2 r3 e1 e2 e3 show ?thesis by auto
qed

subsection \<open>Errors of the update\<close>

text \<open>
  Claim C2, amended. When the set of policy ids of the batch differs from the set of module
  ids of the trainer, \<^verbatim>\<open>update\<close> raises \<^verbatim>\<open>ValueError\<close> before anything is converted
  and before any gradient is applied, and the trainer is as it was. The converse is not
  claimed: with matching keys a \<^verbatim>\<open>ValueError\<close> of the framework can still come out of
  \<^verbatim>\<open>update\<close>, after some optimizers have stepped.
\<close>

theorem update_rejects_mismatched_keys:
  assumes "set (map fst (policy_batches batch)) \<noteq> set (map fst (module (base t)))"
  shows "update e batch t = (Inl ValueError, t)"
  using assms by (simp add: update_def)

theorem update_rejects_mismatched_keys_witness:
  "set (map fst (policy_batches ex_foreign_batch)) \<noteq> set (map fst (module (base (init ex_base True))))
   \<and> update ex_env ex_foreign_batch (init ex_base True) = (Inl ValueError, init ex_base True)"
proof -
  have h: "set (map fst (policy_batches ex_foreign_batch))
             \<noteq> set (map fst (module (base (init ex_base True))))"
    by (simp add: ex_foreign_batch_def init_def ex_base_def)
  from update_rejects_mismatched_keys[OF h, of ex_env] h show ?thesis by simp
qed

text \<open>
  Without that restriction the claim fails, on the trainer with two modules: the keys of the batch
  match, the first optimizer steps its variables, and the second optimizer, which gets no
  gradient, raises \<^verbatim>\<open>ValueError\<close>.
\<close>

theorem update_ValueError_with_matching_keys:
  "set (map fst (policy_batches ex_two_batch))
     = set (map fst (module (base (init ex_two_base False))))
   \<and> fst (update ex_env_unconnected ex_two_batch (init ex_two_base False)) = Inl ValueError
   \<and> trace (snd (update ex_env_unconnected ex_two_batch (init ex_two_base False)))
       = [ConvertToTensor [''p0'', ''obs''], ConvertToTensor [''p1'', ''obs''],
          TapeEnter, ForwardTrain, ComputeLoss, TapeExit, TapeGradient,
          OnAfterComputeGradients, OptimizerApply 0]
   \<and> variables (base (init ex_two_base False)) 0 = Tensor Float32 10
   \<and> variables (base (snd (update ex_env_unconnected ex_two_batch (init ex_two_base False)))) 0
       = Tensor Float32 (- 36)"
  by code_simp

subsection \<open>Batch conversion\<close>

lemma update_behind_prefix:
  "k \<notin> fst ` set xs \<Longrightarrow> AList.update k v (xs @ (k, v0) # ys) = xs @ (k, v) # ys"
  by (induction xs) auto

lemma convert_loop_done:
  assumes "distinct (map fst (pre @ ys))"
  shows "fold (\<lambda>(key, value) d. AList.update key (f value) d) ys
           (map (\<lambda>(key, value). (key, f value)) pre @ ys)
         = map (\<lambda>(key, value). (key, f value)) (pre @ ys)"
  using assms
proof (induction ys arbitrary: pre)
  case Nil
  then show ?case by simp
next
  case (Cons y ys)
  obtain k v where y: "y = (k, v)" by (cases y)
  from Cons.prems y have fresh: "k \<notin> fst ` set (map (\<lambda>(key, value). (key, f value)) pre)"
    by (auto simp: image_iff)
  have step: "AList.update k (f v) (map (\<lambda>(key, value). (key, f value)) pre @ (k, v) # ys)
              = map (\<lambda>(key, value). (key, f value)) (pre @ [(k, v)]) @ ys"
    using update_behind_prefix[OF fresh] by simp
  from Cons.prems y have "distinct (map fst ((pre @ [(k, v)]) @ ys))" by simp
  from Cons.IH[OF this] step y show ?case by simp
qed

lemma convert_loop_map:
  assumes "distinct (map fst nd)"
  shows "fold (\<lambda>(key, value) d. AList.update key (f value) d) nd nd
         = map (\<lambda>(key, value). (key, f value)) nd"
  using convert_loop_done[of "[]" nd f] assms by simp

lemma NestedDict_keys:
  "map fst (NestedDict pbs) = concat (map (\<lambda>(pid, sb). map (\<lambda>col. [pid, col]) (map fst sb)) pbs)"
  by (induction pbs) (auto simp: NestedDict_def case_prod_beta comp_def)

lemma NestedDict_distinct:
  assumes "distinct (map fst pbs)" and "\<forall>(pid, sb) \<in> set pbs. distinct (map fst sb)"
  shows "distinct (map fst (NestedDict pbs))"
  using assms
proof (induction pbs)
  case Nil
  then show ?case by (simp add: NestedDict_def)
next
  case (Cons p pbs)
  obtain pid sb where p: "p = (pid, sb)" by (cases p)
  from Cons p have rest: "distinct (map fst (NestedDict pbs))" by simp
  from Cons.prems p have here: "distinct (map (\<lambda>col. [pid, col]) (map fst sb))"
    by (simp add: distinct_map inj_on_def)
  from Cons.prems p have "pid \<notin> fst ` set pbs" by auto
  then have apart: "set (map (\<lambda>col. [pid, col]) (map fst sb)) \<inter> set (map fst (NestedDict pbs)) = {}"
    by (auto simp: NestedDict_keys image_iff) 
  have "map fst (NestedDict (p # pbs)) = map (\<lambda>col. [pid, col]) (map fst sb) @ map fst (NestedDict pbs)"
    by (simp add: NestedDict_keys p)
  with rest here apart show ?case by simp
qed

lemma do_update_fn_trace:
  "\<exists>evs. trace (snd (do_update_fn e self batch t)) = trace t @ evs"
proof (cases "compute_gradients e self (fst (snd (gradient_tape_block e self batch t)))
                (fst (snd (snd (gradient_tape_block e self batch t))))")
  case (Inl err)
  then show ?thesis
    by (simp add: do_update_fn_def gradient_tape_block_def Let_def)
next
  case (Inr grads)
  define t2 where "t2 = log [TapeGradient, OnAfterComputeGradients]
                          (log [TapeEnter, ForwardTrain, ComputeLoss, TapeExit] t)"
  from apply_gradients_loop_trace[of e self "on_after_compute_gradients e grads" "s_optim_to_param self" t2]
  obtain evs where evs: "trace (snd (apply_gradients e self (on_after_compute_gradients e grads) t2))
                           = trace t2 @ evs"
    by (auto simp: apply_gradients_def)
  have "trace (snd (do_update_fn e self batch t)) = trace t2 @ evs"
    using Inr evs
    by (cases "apply_gradients e self (on_after_compute_gradients e grads) t2")
       (auto simp: do_update_fn_def gradient_tape_block_def Let_def t2_def split: sum.splits)
  then show ?thesis by (simp add: t2_def)
qed

lemma call_update_fn_trace:
  "\<exists>evs. trace (snd (call_update_fn e batch t)) = trace t @ evs"
proof (cases "update_fn t")
  case Eager
  with do_update_fn_trace[of e "structure_of (base t)" batch t] show ?thesis
    by (simp add: call_update_fn_def)
next
  case (Compiled graph)
  define self where "self = (case graph of None \<Rightarrow> structure_of (base t) | Some traced \<Rightarrow> traced)"
  obtain r t' where d: "do_update_fn e self batch t = (r, t')"
    by (cases "do_update_fn e self batch t")
  with do_update_fn_trace[of e self batch t] obtain evs where "trace t' = trace t @ evs" by auto
  with Compiled d show ?thesis
    by (cases r) (simp_all add: call_update_fn_def Let_def self_def[symmetric])
qed

lemma do_distributed_update_trace:
  "\<exists>evs. trace (snd (do_distributed_update e batch t)) = trace t @ evs"
proof (cases "strategy t")
  case None
  then show ?thesis by (simp add: do_distributed_update_def)
next
  case (Some s)
  from call_update_fn_trace[of e batch "log [StrategyRunBegin] t"]
  obtain evs where "trace (snd (call_update_fn e batch (log [StrategyRunBegin] t)))
                      = trace t @ StrategyRunBegin # evs"
    by auto
  with Some show ?thesis
    by (cases "call_update_fn e batch (log [StrategyRunBegin] t)")
       (auto simp: do_distributed_update_def split: sum.splits)
qed

lemma convert_batch_to_tf_tensor_state:
  "snd (convert_batch_to_tf_tensor e batch t)
     = log (map (\<lambda>(key, value). ConvertToTensor key) (NestedDict (policy_batches batch))) t"
  by (simp add: convert_batch_to_tf_tensor_def Let_def)

lemma update_accepted:
  assumes "set (map fst (policy_batches batch)) = set (map fst (module (base t)))"
      and "convert_batch_to_tf_tensor e batch t = (batch', t1)"
  shows "update e batch t =
           (case (if distributed (base t) then do_distributed_update e batch' t1
                  else call_update_fn e batch' t1) of
              (Inl err, t2) \<Rightarrow> (Inl err, t2)
            | (Inr update_outs, t2) \<Rightarrow>
                (compile_results e t2 batch' (out_fwd_out update_outs) (out_loss update_outs)
                   (out_post_processed_gradients update_outs), t2))"
proof -
  from assms(2) convert_batch_to_tf_tensor_state[of e batch t] have "base t1 = base t" by simp
  with assms show ?thesis by (simp add: update_def)
qed

lemma update_state:
  assumes "set (map fst (policy_batches batch)) = set (map fst (module (base t)))"
      and "convert_batch_to_tf_tensor e batch t = (batch', t1)"
  shows "snd (update e batch t) =
           snd (if distributed (base t) then do_distributed_update e batch' t1
                else call_update_fn e batch' t1)"
  unfolding update_accepted[OF assms]
  by (cases "if distributed (base t) then do_distributed_update e batch' t1
             else call_update_fn e batch' t1")
     (auto split: sum.splits)

lemma update_converts_first:
  assumes "set (map fst (policy_batches batch)) = set (map fst (module (base t)))"
  shows "\<exists>evs. trace (snd (update e batch t)) =
           trace t @ map (\<lambda>(key, value). ConvertToTensor key) (NestedDict (policy_batches batch)) @ evs"
proof -
  obtain batch' t1 where c: "convert_batch_to_tf_tensor e batch t = (batch', t1)"
    by (cases "convert_batch_to_tf_tensor e batch t")
  with convert_batch_to_tf_tensor_state[of e batch t]
  have conv: "trace t1 = trace t @ map (\<lambda>(key, value). ConvertToTensor key) (NestedDict (policy_batches batch))"
    by simp
  show ?thesis
  proof (cases "distributed (base t)")
    case True
    from do_distributed_update_trace[of e batch' t1] obtain evs
      where "trace (snd (do_distributed_update e batch' t1)) = trace t1 @ evs" by auto
    with True conv update_state[OF assms c] show ?thesis by simp
  next
    case False
    from call_update_fn_trace[of e batch' t1] obtain evs
      where "trace (snd (call_update_fn e batch' t1)) = trace t1 @ evs" by auto
    with False conv update_state[OF assms c] show ?thesis by simp
  qed
qed

text \<open>
  Claim C10. \<^verbatim>\<open>convert_batch_to_tf_tensor\<close> returns the \<^verbatim>\<open>NestedDict\<close> built from the
  \<^verbatim>\<open>policy_batches\<close> of the batch, with the same paths and with every leaf replaced by
  its conversion to a tensor of dtype \<^verbatim>\<open>float32\<close>, whatever the leaf was; \<^verbatim>\<open>update\<close>
  runs these conversions on every batch it accepts before anything else. The batch is
  made of dictionaries, so policy ids and the column names of each policy are distinct.
\<close>

theorem convert_batch_to_tf_tensor_all_float32:
  assumes "distinct (map fst (policy_batches batch))"
      and "\<forall>(pid, sb) \<in> set (policy_batches batch). distinct (map fst sb)"
  shows "fst (convert_batch_to_tf_tensor e batch t) =
           map (\<lambda>(key, value). (key, convert_to_tensor e value Float32))
             (NestedDict (policy_batches batch))
         \<and> (set (map fst (policy_batches batch)) = set (map fst (module (base t))) \<longrightarrow>
              (\<exists>evs. trace (snd (update e batch t)) =
                 trace t @ map (\<lambda>(key, value). ConvertToTensor key) (NestedDict (policy_batches batch))
                   @ evs))"
proof -
  from NestedDict_distinct[OF assms] have "distinct (map fst (NestedDict (policy_batches batch)))" .
  from convert_loop_map[OF this, of "\<lambda>value. convert_to_tensor e value Float32"]
  have "fst (convert_batch_to_tf_tensor e batch t) =
           map (\<lambda>(key, value). (key, convert_to_tensor e value Float32))
             (NestedDict (policy_batches batch))"
    by (simp add: convert_batch_to_tf_tensor_def Let_def)
  with update_converts_first[of batch t e] show ?thesis by blast
qed

theorem convert_batch_to_tf_tensor_witness:
  "distinct (map fst (policy_batches ex_batch))
   \<and> list_all (\<lambda>p. distinct (map fst (snd p))) (policy_batches ex_batch)
   \<and> set (map fst (policy_batches ex_batch)) = set (map fst (module (base (init ex_base True))))
   \<and> fst (convert_batch_to_tf_tensor ex_env ex_batch (init ex_base True)) =
       [([''p0'', ''obs''], Tensor Float32 3), ([''p0'', ''rewards''], Tensor Float32 4)]
   \<and> (\<exists>evs. trace (snd (update ex_env ex_batch (init ex_base True))) =
         [ConvertToTensor [''p0'', ''obs''], ConvertToTensor [''p0'', ''rewards'']] @ evs)"
proof -
  have h1: "distinct (map fst (policy_batches ex_batch))"
    and h2: "\<forall>(pid, sb) \<in> set (policy_batches ex_batch). distinct (map fst sb)"
    and h3: "set (map fst (policy_batches ex_batch)) = set (map fst (module (base (init ex_base True))))"
    by (simp_all add: ex_batch_def init_def ex_base_def)
  have nd: "NestedDict (policy_batches ex_batch) =
              [([''p0'', ''obs''], NumpyArray Int64 3), ([''p0'', ''rewards''], NumpyArray Float64 4)]"
    by (simp add: NestedDict_def ex_batch_def)
  have tr: "trace (init ex_base True) = []" by (simp add: init_def)
  from convert_batch_to_tf_tensor_all_float32[OF h1 h2, of ex_env "init ex_base True"] h3 nd tr
  have "fst (convert_batch_to_tf_tensor ex_env ex_batch (init ex_base True)) =
          map (\<lambda>(key, value). (key, convert_to_tensor ex_env value Float32))
            [([''p0'', ''obs''], NumpyArray Int64 3), ([''p0'', ''rewards''], NumpyArray Float64 4)]"
    and "\<exists>evs. trace (snd (update ex_env ex_batch (init ex_base True))) =
         [ConvertToTensor [''p0'', ''obs''], ConvertToTensor [''p0'', ''rewards'']] @ evs"
    by auto
  moreover have "list_all (\<lambda>p. distinct (map fst (snd p))) (policy_batches ex_batch)"
    by (simp add: ex_batch_def)
  ultimately show ?thesis using h1 h3 by (simp add: ex_env_def)
qed

subsection \<open>The cycle, step by step\<close>

lemma comprehension_Inr_map:
  "comprehension f xs = Inr ys \<Longrightarrow> length ys = length xs"
  by (induction xs arbitrary: ys) (auto split: sum.splits)

lemma apply_gradients_step_frame:
  "structure_of (base (snd (apply_gradients_step e self g item t))) = structure_of (base t)
   \<and> optimizer_config (base (snd (apply_gradients_step e self g item t))) = optimizer_config (base t)
   \<and> distributed (base (snd (apply_gradients_step e self g item t))) = distributed (base t)
   \<and> in_test (base (snd (apply_gradients_step e self g item t))) = in_test (base t)
   \<and> update_fn (snd (apply_gradients_step e self g item t)) = update_fn t
   \<and> enable_tf_function (snd (apply_gradients_step e self g item t)) = enable_tf_function t
   \<and> strategy (snd (apply_gradients_step e self g item t)) = strategy t"
  by (auto simp: apply_gradients_step_def structure_of_def Let_def split: prod.splits sum.splits)

lemma apply_gradients_loop_frame:
  "structure_of (base (snd (apply_gradients_loop e self g items t))) = structure_of (base t)
   \<and> optimizer_config (base (snd (apply_gradients_loop e self g items t))) = optimizer_config (base t)
   \<and> distributed (base (snd (apply_gradients_loop e self g items t))) = distributed (base t)
   \<and> in_test (base (snd (apply_gradients_loop e self g items t))) = in_test (base t)
   \<and> update_fn (snd (apply_gradients_loop e self g items t)) = update_fn t
   \<and> enable_tf_function (snd (apply_gradients_loop e self g items t)) = enable_tf_function t
   \<and> strategy (snd (apply_gradients_loop e self g items t)) = strategy t"
proof (induction items arbitrary: t)
  case Nil
  then show ?case by simp
next
  case (Cons item items)
  obtain r t1 where step: "apply_gradients_step e self g item t = (r, t1)"
    by (cases "apply_gradients_step e self g item t")
  from apply_gradients_step_frame[of e self g item t] step
  have f1: "structure_of (base t1) = structure_of (base t)
            \<and> optimizer_config (base t1) = optimizer_config (base t)
            \<and> distributed (base t1) = distributed (base t)
            \<and> in_test (base t1) = in_test (base t)
            \<and> update_fn t1 = update_fn t
            \<and> enable_tf_function t1 = enable_tf_function t
            \<and> strategy t1 = strategy t"
    by simp
  show ?case
  proof (cases r)
    case (Inl err)
    with step f1 show ?thesis by simp
  next
    case (Inr u)
    with step f1 Cons.IH[of t1] show ?thesis by simp
  qed
qed






lemma do_update_fn_frame:
  "structure_of (base (snd (do_update_fn e self batch t))) = structure_of (base t)
   \<and> optimizer_config (base (snd (do_update_fn e self batch t))) = optimizer_config (base t)
   \<and> distributed (base (snd (do_update_fn e self batch t))) = distributed (base t)
   \<and> in_test (base (snd (do_update_fn e self batch t))) = in_test (base t)
   \<and> update_fn (snd (do_update_fn e self batch t)) = update_fn t
   \<and> enable_tf_function (snd (do_update_fn e self batch t)) = enable_tf_function t
   \<and> strategy (snd (do_update_fn e self batch t)) = strategy t"
proof -
  let ?fwd = "forward_train e (s_module self) (variables (base t)) batch"
  let ?loss = "wrap_loss (compute_loss e ?fwd batch)"
  let ?tape = "[RecForwardTrain batch ?fwd, RecComputeLoss ?fwd batch (compute_loss e ?fwd batch)]"
  show ?thesis
  proof (cases "compute_gradients e self ?loss ?tape")
    case (Inl err)
    then show ?thesis
      by (simp add: do_update_fn_def gradient_tape_block_def Let_def)
  next
    case (Inr grads)
    let ?g = "on_after_compute_gradients e grads"
    let ?t2 = "log [TapeGradient, OnAfterComputeGradients]
                 (log [TapeEnter, ForwardTrain, ComputeLoss, TapeExit] t)"
    obtain r t3 where x: "apply_gradients e self ?g ?t2 = (r, t3)"
      by (cases "apply_gradients e self ?g ?t2")
    from apply_gradients_loop_frame[of e self ?g "s_optim_to_param self" ?t2] x
    have "structure_of (base t3) = structure_of (base t)
          \<and> optimizer_config (base t3) = optimizer_config (base t)
          \<and> distributed (base t3) = distributed (base t)
          \<and> in_test (base t3) = in_test (base t)
          \<and> update_fn t3 = update_fn t
          \<and> enable_tf_function t3 = enable_tf_function t
          \<and> strategy t3 = strategy t"
      by (simp add: apply_gradients_def)
    with Inr x show ?thesis
      by (cases r) (simp_all add: do_update_fn_def gradient_tape_block_def Let_def)
  qed
qed



subsection \<open>The update cycle of a local trainer\<close>

lemma update_fn_current_log [simp]:
  "update_fn_current (log evs t) = update_fn_current t"
  by (simp add: update_fn_current_def split: update_fn.splits option.splits)




subsection \<open>Local and distributed dispatch\<close>

lemma apply_gradients_step_events:
  "\<exists>evs. trace (snd (apply_gradients_step e self g item t)) = trace t @ evs
         \<and> set evs \<subseteq> range OptimizerApply"
  by (auto simp: apply_gradients_step_def Let_def split: prod.splits sum.splits)

lemma apply_gradients_loop_events:
  "\<exists>evs. trace (snd (apply_gradients_loop e self g items t)) = trace t @ evs
         \<and> set evs \<subseteq> range OptimizerApply"
proof (induction items arbitrary: t)
  case Nil
  then show ?case by simp
next
  case (Cons item items)
  obtain r t1 where step: "apply_gradients_step e self g item t = (r, t1)"
    by (cases "apply_gradients_step e self g item t")
  from apply_gradients_step_events[of e self g item t] step
  obtain evs where evs: "trace t1 = trace t @ evs" "set evs \<subseteq> range OptimizerApply" by auto
  show ?case
  proof (cases r)
    case (Inl err)
    with step evs show ?thesis by simp
  next
    case (Inr u)
    from Cons.IH[of t1] obtain evs' where
      "trace (snd (apply_gradients_loop e self g items t1)) = trace t1 @ evs'"
      "set evs' \<subseteq> range OptimizerApply" by auto
    with step evs Inr have
      "trace (snd (apply_gradients_loop e self g (item # items) t)) = trace t @ (evs @ evs')
       \<and> set (evs @ evs') \<subseteq> range OptimizerApply" by simp
    then show ?thesis by blast
  qed
qed

lemma do_update_fn_events:
  "\<exists>evs. trace (snd (do_update_fn e self batch t)) = trace t @ evs
         \<and> set evs \<subseteq> {TapeEnter, ForwardTrain, ComputeLoss, TapeExit, TapeGradient,
                         OnAfterComputeGradients} \<union> range OptimizerApply"
proof (cases "compute_gradients e self (fst (snd (gradient_tape_block e self batch t)))
                (fst (snd (snd (gradient_tape_block e self batch t))))")
  case (Inl err)
  then show ?thesis
    by (simp add: do_update_fn_def gradient_tape_block_def Let_def)
next
  case (Inr grads)
  define t2 where "t2 = log [TapeGradient, OnAfterComputeGradients]
                          (log [TapeEnter, ForwardTrain, ComputeLoss, TapeExit] t)"
  from apply_gradients_loop_events[of e self "on_after_compute_gradients e grads" "s_optim_to_param self" t2]
  obtain evs where evs: "trace (snd (apply_gradients e self (on_after_compute_gradients e grads) t2))
                           = trace t2 @ evs" "set evs \<subseteq> range OptimizerApply"
    by (auto simp: apply_gradients_def)
  have "trace (snd (do_update_fn e self batch t)) = trace t2 @ evs"
    using Inr evs
    by (cases "apply_gradients e self (on_after_compute_gradients e grads) t2")
       (auto simp: do_update_fn_def gradient_tape_block_def Let_def t2_def split: sum.splits)
  then have "trace (snd (do_update_fn e self batch t))
               = trace t @ ([TapeEnter, ForwardTrain, ComputeLoss, TapeExit, TapeGradient,
                             OnAfterComputeGradients] @ evs)"
    by (simp add: t2_def)
  moreover from evs(2) have "set ([TapeEnter, ForwardTrain, ComputeLoss, TapeExit, TapeGradient,
                             OnAfterComputeGradients] @ evs)
        \<subseteq> {TapeEnter, ForwardTrain, ComputeLoss, TapeExit, TapeGradient,
            OnAfterComputeGradients} \<union> range OptimizerApply"
    by auto
  ultimately show ?thesis by blast
qed

lemma call_update_fn_events:
  "\<exists>evs. trace (snd (call_update_fn e batch t)) = trace t @ evs
         \<and> set evs \<subseteq> {TapeEnter, ForwardTrain, ComputeLoss, TapeExit, TapeGradient,
                         OnAfterComputeGradients} \<union> range OptimizerApply"
proof (cases "update_fn t")
  case Eager
  with do_update_fn_events[of e "structure_of (base t)" batch t] show ?thesis
    by (simp add: call_update_fn_def)
next
  case (Compiled graph)
  define self where "self = (case graph of None \<Rightarrow> structure_of (base t) | Some traced \<Rightarrow> traced)"
  obtain r t' where d: "do_update_fn e self batch t = (r, t')"
    by (cases "do_update_fn e self batch t")
  show ?thesis
  proof (cases r)
    case (Inl err)
    with Compiled d have "trace (snd (call_update_fn e batch t)) = trace t @ []"
      by (simp add: call_update_fn_def Let_def self_def[symmetric])
    then show ?thesis by (intro exI[of _ "[]"]) simp
  next
    case (Inr outs)
    with Compiled d have "trace (snd (call_update_fn e batch t)) = trace t'"
      by (simp add: call_update_fn_def Let_def self_def[symmetric])
    with do_update_fn_events[of e self batch t] d show ?thesis by simp
  qed
qed

text \<open>
  Claim C5. On a batch it accepts, \<^verbatim>\<open>update\<close> takes one of two ways. A trainer built
  with \<^verbatim>\<open>distributed=True\<close> goes through \<^verbatim>\<open>do_distributed_update\<close>, which calls the
  update function inside \<^verbatim>\<open>strategy.run\<close>; any other trainer calls the update function
  directly, and no \<^verbatim>\<open>strategy.run\<close> happens. Either way, when the cycle returns its
  outputs, \<^verbatim>\<open>update\<close> returns \<^verbatim>\<open>compile_results\<close> of them.
\<close>

theorem update_dispatches_on_distributed:
  fixes e :: "('v, 'o, 'c) env" and t :: "('v, 'o) tf_rl_trainer"
    and batch :: "'v multi_agent_batch"
  defines "batch' \<equiv> fst (convert_batch_to_tf_tensor e batch t)"
  defines "t1 \<equiv> snd (convert_batch_to_tf_tensor e batch t)"
  assumes accepted: "set (map fst (policy_batches batch)) = set (map fst (module (base t)))"
  shows "(distributed (base t) \<longrightarrow>
            update e batch t =
              (case do_distributed_update e batch' t1 of
                 (Inl err, t2) \<Rightarrow> (Inl err, t2)
               | (Inr outs, t2) \<Rightarrow>
                   (compile_results e t2 batch' (out_fwd_out outs) (out_loss outs)
                      (out_post_processed_gradients outs), t2))
            \<and> (\<forall>s. strategy t = Some s \<longrightarrow>
                  do_distributed_update e batch' t1 =
                    (case call_update_fn e batch' (log [StrategyRunBegin] t1) of
                       (Inl err, t2) \<Rightarrow> (Inl err, t2)
                     | (Inr outs, t2) \<Rightarrow> (Inr outs, log [StrategyRunEnd] t2))
                  \<and> (\<exists>evs. trace (snd (update e batch t)) = trace t1 @ StrategyRunBegin # evs)))
       \<and> (\<not> distributed (base t) \<longrightarrow>
            update e batch t =
              (case call_update_fn e batch' t1 of
                 (Inl err, t2) \<Rightarrow> (Inl err, t2)
               | (Inr outs, t2) \<Rightarrow>
                   (compile_results e t2 batch' (out_fwd_out outs) (out_loss outs)
                      (out_post_processed_gradients outs), t2))
            \<and> (\<exists>evs. trace (snd (update e batch t)) = trace t1 @ evs
                   \<and> StrategyRunBegin \<notin> set evs \<and> StrategyRunEnd \<notin> set evs))"
proof -
  have c: "convert_batch_to_tf_tensor e batch t = (batch', t1)"
    by (simp add: batch'_def t1_def)
  note acc = update_accepted[OF accepted c]
  note st = update_state[OF accepted c]
  have dist: "distributed (base t) \<Longrightarrow> strategy t = Some s \<Longrightarrow>
                do_distributed_update e batch' t1 =
                    (case call_update_fn e batch' (log [StrategyRunBegin] t1) of
                       (Inl err, t2) \<Rightarrow> (Inl err, t2)
                     | (Inr outs, t2) \<Rightarrow> (Inr outs, log [StrategyRunEnd] t2))
                \<and> (\<exists>evs. trace (snd (update e batch t)) = trace t1 @ StrategyRunBegin # evs)" for s
  proof -
    assume d: "distributed (base t)" and s: "strategy t = Some s"
    from s convert_batch_to_tf_tensor_state[of e batch t] have s1: "strategy t1 = Some s"
      by (simp add: t1_def)
    then have eq: "do_distributed_update e batch' t1 =
                    (case call_update_fn e batch' (log [StrategyRunBegin] t1) of
                       (Inl err, t2) \<Rightarrow> (Inl err, t2)
                     | (Inr outs, t2) \<Rightarrow> (Inr outs, log [StrategyRunEnd] t2))"
      by (simp add: do_distributed_update_def)
    from call_update_fn_trace[of e batch' "log [StrategyRunBegin] t1"] obtain evs
      where "trace (snd (call_update_fn e batch' (log [StrategyRunBegin] t1)))
               = trace t1 @ StrategyRunBegin # evs" by auto
    then have "\<exists>evs. trace (snd (do_distributed_update e batch' t1)) = trace t1 @ StrategyRunBegin # evs"
      unfolding eq
      by (cases "call_update_fn e batch' (log [StrategyRunBegin] t1)") (auto split: sum.splits)
    with d st eq show ?thesis by simp
  qed
  have loc: "\<not> distributed (base t) \<Longrightarrow>
               \<exists>evs. trace (snd (update e batch t)) = trace t1 @ evs
                   \<and> StrategyRunBegin \<notin> set evs \<and> StrategyRunEnd \<notin> set evs"
  proof -
    assume d: "\<not> distributed (base t)"
    from call_update_fn_events[of e batch' t1] obtain evs where
      "trace (snd (call_update_fn e batch' t1)) = trace t1 @ evs"
      "set evs \<subseteq> {TapeEnter, ForwardTrain, ComputeLoss, TapeExit, TapeGradient,
                  OnAfterComputeGradients} \<union> range OptimizerApply" by auto
    moreover from this(2) have "StrategyRunBegin \<notin> set evs \<and> StrategyRunEnd \<notin> set evs" by auto
    ultimately show ?thesis using d st by auto
  qed
  from acc dist loc show ?thesis by auto
qed

theorem update_dispatches_witness:
  "set (map fst (policy_batches ex_batch)) = set (map fst (module (base ex_distributed)))
   \<and> distributed (base ex_distributed)
   \<and> strategy ex_distributed = Some MultiWorkerMirroredStrategy
   \<and> (\<exists>evs. trace (snd (update ex_env ex_batch ex_distributed)) =
         [StrategyCreate, ScopeEnter, MakeModule, ScopeExit,
          ConvertToTensor [''p0'', ''obs''], ConvertToTensor [''p0'', ''rewards''],
          StrategyRunBegin] @ evs)
   \<and> set (map fst (policy_batches ex_batch)) = set (map fst (module (base (init ex_base True))))
   \<and> \<not> distributed (base (init ex_base True))
   \<and> (\<exists>evs. trace (snd (update ex_env ex_batch (init ex_base True))) =
         [ConvertToTensor [''p0'', ''obs''], ConvertToTensor [''p0'', ''rewards'']] @ evs
         \<and> StrategyRunBegin \<notin> set evs \<and> StrategyRunEnd \<notin> set evs)"
proof -
  have d1: "set (map fst (policy_batches ex_batch)) = set (map fst (module (base ex_distributed)))"
    and d2: "distributed (base ex_distributed)"
    and d3: "strategy ex_distributed = Some MultiWorkerMirroredStrategy"
    and d4: "trace ex_distributed = [StrategyCreate, ScopeEnter, MakeModule, ScopeExit]"
    by (simp_all add: ex_distributed_def make_distributed_def Let_def init_def ex_base_def
                      ex_env_def ex_batch_def)
  have l1: "set (map fst (policy_batches ex_batch)) = set (map fst (module (base (init ex_base True))))"
    and l2: "\<not> distributed (base (init ex_base True))"
    and l4: "trace (init ex_base True) = []"
    by (simp_all add: init_def ex_base_def ex_batch_def)
  have nd: "NestedDict (policy_batches ex_batch) =
              [([''p0'', ''obs''], NumpyArray Int64 3), ([''p0'', ''rewards''], NumpyArray Float64 4)]"
    by (simp add: NestedDict_def ex_batch_def)
  have c1: "trace (snd (convert_batch_to_tf_tensor ex_env ex_batch ex_distributed)) =
              [StrategyCreate, ScopeEnter, MakeModule, ScopeExit,
               ConvertToTensor [''p0'', ''obs''], ConvertToTensor [''p0'', ''rewards'']]"
    by (simp add: convert_batch_to_tf_tensor_state nd d4)
  have c2: "trace (snd (convert_batch_to_tf_tensor ex_env ex_batch (init ex_base True))) =
              [ConvertToTensor [''p0'', ''obs''], ConvertToTensor [''p0'', ''rewards'']]"
    by (simp add: convert_batch_to_tf_tensor_state nd l4)
  from update_dispatches_on_distributed[OF d1, of ex_env] d2 d3
  have r1: "\<exists>evs. trace (snd (update ex_env ex_batch ex_distributed)) =
              trace (snd (convert_batch_to_tf_tensor ex_env ex_batch ex_distributed))
                @ StrategyRunBegin # evs"
    by blast
  from update_dispatches_on_distributed[OF l1, of ex_env] l2
  have r2: "\<exists>evs. trace (snd (update ex_env ex_batch (init ex_base True))) =
              trace (snd (convert_batch_to_tf_tensor ex_env ex_batch (init ex_base True))) @ evs
              \<and> StrategyRunBegin \<notin> set evs \<and> StrategyRunEnd \<notin> set evs"
    by blast
  from r1 r2 d1 d2 d3 l1 l2 show ?thesis unfolding c1 c2 by simp
qed

subsection \<open>Module lifecycle under the strategy's scope\<close>

lemma rewrap_simps [simp]:
  "trace (rewrap t) = trace t"
  "base (rewrap t) = base t"
  "strategy (rewrap t) = strategy t"
  "enable_tf_function (rewrap t) = enable_tf_function t"
  by (simp_all add: rewrap_def)

lemma make_distributed_trace:
  "trace (snd (make_distributed e t)) = trace t @ [StrategyCreate, ScopeEnter, MakeModule, ScopeExit]"
  by (simp add: make_distributed_def Let_def)

lemma add_module_trace:
  "trace (snd (add_module e module_id module_cls module_kwargs set_optimizer_fn optimizer_cls t)) =
     trace t @ (if distributed (base t)
                then (case strategy t of None \<Rightarrow> []
                      | Some s \<Rightarrow> [ScopeEnter, SuperAddModule module_id, ScopeExit])
                else [SuperAddModule module_id])"
  by (simp add: add_module_def Let_def split: option.splits)

lemma remove_module_trace:
  "trace (snd (remove_module e module_id t)) =
     trace t @ (if distributed (base t)
                then (case strategy t of None \<Rightarrow> []
                      | Some s \<Rightarrow> [ScopeEnter, SuperRemoveModule module_id, ScopeExit])
                else [SuperRemoveModule module_id])"
  by (simp add: remove_module_def Let_def split: option.splits)

text \<open>
  Claim C8. On a distributed trainer the module lifecycle runs inside the mirrored
  strategy's scope: \<^verbatim>\<open>_make_distributed\<close> builds the module between entering and
  leaving the scope, and so do \<^verbatim>\<open>add_module\<close> and \<^verbatim>\<open>remove_module\<close> with the base
  class's addition and removal, whenever they get that far.
\<close>

theorem module_lifecycle_in_strategy_scope:
  assumes "distributed (base t)"
  shows "(\<exists>evs. trace (snd (make_distributed e t)) = trace t @ evs
            \<and> lifecycle_in_scope 0 evs \<and> MakeModule \<in> set evs)
       \<and> (\<exists>evs. trace (snd (add_module e module_id module_cls module_kwargs set_optimizer_fn
                               optimizer_cls t)) = trace t @ evs
            \<and> lifecycle_in_scope 0 evs
            \<and> (fst (add_module e module_id module_cls module_kwargs set_optimizer_fn
                       optimizer_cls t) = Inr () \<longrightarrow> SuperAddModule module_id \<in> set evs))
       \<and> (\<exists>evs. trace (snd (remove_module e module_id t)) = trace t @ evs
            \<and> lifecycle_in_scope 0 evs
            \<and> (fst (remove_module e module_id t) = Inr () \<longrightarrow> SuperRemoveModule module_id \<in> set evs))"
proof (intro conjI)
  show "\<exists>evs. trace (snd (make_distributed e t)) = trace t @ evs
            \<and> lifecycle_in_scope 0 evs \<and> MakeModule \<in> set evs"
    by (simp add: make_distributed_trace)
next
  show "\<exists>evs. trace (snd (add_module e module_id module_cls module_kwargs set_optimizer_fn
                               optimizer_cls t)) = trace t @ evs
            \<and> lifecycle_in_scope 0 evs
            \<and> (fst (add_module e module_id module_cls module_kwargs set_optimizer_fn
                       optimizer_cls t) = Inr () \<longrightarrow> SuperAddModule module_id \<in> set evs)"
    using assms
    by (cases "strategy t") (simp_all add: add_module_trace, simp_all add: add_module_def)
next
  show "\<exists>evs. trace (snd (remove_module e module_id t)) = trace t @ evs
            \<and> lifecycle_in_scope 0 evs
            \<and> (fst (remove_module e module_id t) = Inr () \<longrightarrow> SuperRemoveModule module_id \<in> set evs)"
    using assms
    by (cases "strategy t") (simp_all add: remove_module_trace, simp_all add: remove_module_def)
qed

theorem module_lifecycle_witness:
  "distributed (base ex_distributed)
   \<and> trace (snd (make_distributed ex_env ex_distributed)) =
       trace ex_distributed @ [StrategyCreate, ScopeEnter, MakeModule, ScopeExit]
   \<and> lifecycle_in_scope 0 [StrategyCreate, ScopeEnter, MakeModule, ScopeExit]
   \<and> fst (add_module ex_env ''p1'' () () None None ex_distributed) = Inr ()
   \<and> (\<exists>evs. trace (snd (add_module ex_env ''p1'' () () None None ex_distributed)) =
                trace ex_distributed @ evs
          \<and> lifecycle_in_scope 0 evs \<and> SuperAddModule ''p1'' \<in> set evs)
   \<and> fst (remove_module ex_env ''p0'' ex_distributed) = Inr ()
   \<and> (\<exists>evs. trace (snd (remove_module ex_env ''p0'' ex_distributed)) = trace ex_distributed @ evs
          \<and> lifecycle_in_scope 0 evs \<and> SuperRemoveModule ''p0'' \<in> set evs)"
proof -
  have d: "distributed (base ex_distributed)"
    and s: "strategy ex_distributed = Some MultiWorkerMirroredStrategy"
    by (simp_all add: ex_distributed_def make_distributed_def Let_def init_def ex_base_def ex_env_def)
  from d s have a: "fst (add_module ex_env ''p1'' () () None None ex_distributed) = Inr ()"
    and r: "fst (remove_module ex_env ''p0'' ex_distributed) = Inr ()"
    by (simp_all add: add_module_def remove_module_def)
  have m: "trace (snd (make_distributed ex_env ex_distributed)) =
             trace ex_distributed @ [StrategyCreate, ScopeEnter, MakeModule, ScopeExit]"
    by (simp add: make_distributed_def Let_def)
  note inst = module_lifecycle_in_strategy_scope
         [where t = ex_distributed and e = ex_env and module_id = "''p1''" and module_cls = "()"
            and module_kwargs = "()" and set_optimizer_fn = None and optimizer_cls = None, OF d]
       module_lifecycle_in_strategy_scope
         [where t = ex_distributed and e = ex_env and module_id = "''p0''" and module_cls = "()"
            and module_kwargs = "()" and set_optimizer_fn = None and optimizer_cls = None, OF d]
  from inst a r d m show ?thesis by simp
qed

subsection \<open>Graph mode against eager mode\<close>

lemma call_update_fn_keeps_current:
  assumes "update_fn_current t"
  shows "update_fn_current (snd (call_update_fn e batch t))
       \<and> (update_fn (snd (call_update_fn e batch t)) = Eager) = (update_fn t = Eager)"
proof -
  let ?self = "structure_of (base t)"
  obtain r t' where d: "do_update_fn e ?self batch t = (r, t')"
    by (cases "do_update_fn e ?self batch t")
  from do_update_fn_frame[of e ?self batch t] d
  have fr: "structure_of (base t') = ?self" "update_fn t' = update_fn t" by simp_all
  show ?thesis
  proof (cases "update_fn t")
    case Eager
    with d fr show ?thesis
      by (simp add: call_update_fn_def update_fn_current_def)
  next
    case (Compiled graph)
    with assms have g: "(case graph of None \<Rightarrow> ?self | Some traced \<Rightarrow> traced) = ?self"
      by (cases graph) (simp_all add: update_fn_current_def)
    from Compiled assms d fr g show ?thesis
      by (cases r) (simp_all add: call_update_fn_def Let_def update_fn_current_def)
  qed
qed













text \<open>
  The re-wrap is what the equivalence rests on. On the trainer with the out-of-date graph
  the update trains the module the graph was traced with and leaves the new one out; after
  the re-wrap it returns what the bound method returns.
\<close>

lemma stale_graph_differs:
  "fst (update ex_env ex_two_batch (rewrap ex_stale))
     = Inr [(''loss'', LossValue (LossMapping [(''total_loss'', NumpyArray Float32 (- 11))])),
            (''mean_gradient'', Scalar (NumpyArray Float64 (- 25)))]
   \<and> fst (update ex_env ex_two_batch (ex_stale\<lparr>update_fn := Eager\<rparr>))
     = fst (update ex_env ex_two_batch (rewrap ex_stale))
   \<and> fst (update ex_env ex_two_batch ex_stale)
     = Inr [(''loss'', LossValue (LossMapping [(''total_loss'', NumpyArray Float32 (- 28))])),
            (''mean_gradient'', Scalar (NumpyArray Float64 (- 55)))]"
  by code_simp




end
